theory Spec2Isabelle
  imports Complex_Main "HOL-Library.AList"
begin

section \<open>Data model of the virtual machine (vm.ts)\<close>

text \<open>
  The opcodes of \<^verbatim>\<open>enum Opcode\<close>, in the order of the source.
\<close>

datatype Opcode =
    PUSH | POP | ADD | SUB | MUL | DIV | LT | GT | LTE | GTE | EQ | GTEQ | NEQ
  | AND | OR | NOT | JUMP | JUMPF | JUMPT | JUMPTF | LOAD | STORE | CALL | RET
  | HALT | PRINT | INPUT | SYSCALL | DATA | INC | DEC | NEG | COPY | SETGL
  | DECLAREGL | LOADGL | NATIVE | NOP | MOD | MAKE_TUPLE | MAKE_LIST
  | SUBSCRIPT | STORE_SUBSCRIPT

text \<open>
  \<^verbatim>\<open>enum ValueType\<close>. \<open>NATIVE_T\<close> and \<open>SYSCALL_T\<close> are \<^verbatim>\<open>ValueType.NATIVE\<close> and
  \<^verbatim>\<open>ValueType.SYSCALL\<close>, and \<open>SYSCALL_S\<close> below is \<^verbatim>\<open>VMStatus.SYSCALL\<close>: the
  suffixes keep them apart from the opcodes of the same name.
\<close>

datatype ValueType =
  STRING | NUMBER | BOOLEAN | FUNCTION | NATIVE_T | SYSCALL_T | TUPLE | LIST | NULL

text \<open>
  \<^verbatim>\<open>class Instruction\<close>: the operand \<^verbatim>\<open>value?: number\<close> and the line number are
  optional; \<open>None\<close> is JavaScript's \<^verbatim>\<open>undefined\<close>. The compiler only ever emits
  integer operands, so the operand is an \<open>int\<close>. The fields \<^verbatim>\<open>type\<close> and
  \<^verbatim>\<open>value\<close> are \<open>itype\<close> and \<open>ivalue\<close> here, and the fields \<^verbatim>\<open>text\<close> and
  \<^verbatim>\<open>data\<close> of the classes below carry the initial of their class: the plain names
  are taken.
\<close>

record Instruction =
  itype :: Opcode
  ivalue :: "int option"
  lineNumber :: "nat option"

text \<open>\<^verbatim>\<open>class Function\<close>: name, parameter names and the compiled body.\<close>

record Function =
  name :: string
  args :: "string list"
  body :: "Instruction list"

text \<open>
  \<^verbatim>\<open>class Value\<close> is a pair of a tag and a payload. The payload of a Tuple or a
  List is a JavaScript array, an object with an identity that the VM mutates in place
  (\<^verbatim>\<open>b.value.push(...)\<close>, \<^verbatim>\<open>name.value[key.value] = value\<close>) and compares by
  reference (\<^verbatim>\<open>===\<close>). The array therefore lives in a heap and the value carries
  its address. The payload of a Function value is a Function object: the VM never
  mutates it, so the value carries the object's contents together with its reference,
  and the reference alone decides \<^verbatim>\<open>===\<close>.

  Number payloads are exact rationals; the rounding, the infinities and NaN of
  double-precision arithmetic are outside this embedding.

  \<open>Undefined\<close> is not a \<^verbatim>\<open>Value\<close> object: it is JavaScript's \<^verbatim>\<open>undefined\<close>,
  which the VM pushes when it reads an array past its end (\<^verbatim>\<open>this.data[value]\<close>,
  \<^verbatim>\<open>this.stack[value]\<close>, \<^verbatim>\<open>container.value[key.value]\<close>). Reading a field of it
  raises a TypeError.
\<close>

datatype Value =
    String string
  | Number rat
  | Boolean bool
  | Function nat Function
  | Native string
  | Syscall string
  | Tuple nat
  | List nat
  | Null
  | Undefined

text \<open>The field \<^verbatim>\<open>type\<close> of a value; \<open>None\<close> for \<^verbatim>\<open>undefined\<close>.\<close>

fun vtype :: "Value \<Rightarrow> ValueType option" where
  "vtype (String _) = Some STRING"
| "vtype (Number _) = Some NUMBER"
| "vtype (Boolean _) = Some BOOLEAN"
| "vtype (Function _ _) = Some FUNCTION"
| "vtype (Native _) = Some NATIVE_T"
| "vtype (Syscall _) = Some SYSCALL_T"
| "vtype (Tuple _) = Some TUPLE"
| "vtype (List _) = Some LIST"
| "vtype Null = Some NULL"
| "vtype Undefined = None"

text \<open>
  The field \<^verbatim>\<open>value\<close> of a value, as far as \<^verbatim>\<open>===\<close>, truthiness and the keys of
  the globals map can tell: primitives by value, arrays and Function objects by
  reference.
\<close>

datatype payload =
    PString string
  | PNumber rat
  | PBoolean bool
  | PFunction nat
  | PArray nat
  | PNull

fun payload_of :: "Value \<Rightarrow> payload option" where
  "payload_of (String s) = Some (PString s)"
| "payload_of (Number n) = Some (PNumber n)"
| "payload_of (Boolean b) = Some (PBoolean b)"
| "payload_of (Function r f) = Some (PFunction r)"
| "payload_of (Native s) = Some (PString s)"
| "payload_of (Syscall s) = Some (PString s)"
| "payload_of (Tuple a) = Some (PArray a)"
| "payload_of (List a) = Some (PArray a)"
| "payload_of Null = Some PNull"
| "payload_of Undefined = None"

text \<open>JavaScript truthiness of a payload (\<^verbatim>\<open>!x\<close>, \<^verbatim>\<open>if (x)\<close>).\<close>

fun truthy :: "payload \<Rightarrow> bool" where
  "truthy (PString s) = (s \<noteq> [])"
| "truthy (PNumber n) = (n \<noteq> 0)"
| "truthy (PBoolean b) = b"
| "truthy (PFunction _) = True"
| "truthy (PArray _) = True"
| "truthy PNull = False"

text \<open>
  Modelled from the spec: the error classes of \<^verbatim>\<open>./error\<close>, which is not among the
  sources, by the names that \<^verbatim>\<open>vm.ts\<close> and \<^verbatim>\<open>compiler.ts\<close> import, each with the
  source line it is raised with.
  \<open>TypeError\<close> is the JavaScript exception raised by reading a property of
  \<^verbatim>\<open>undefined\<close>. \<open>RangeError\<close> is the JavaScript exception that ends a
  recursion without end. \<open>DanglingReference\<close> is not an exception of the source: it
  is the result for a Tuple or List value whose address is outside the heap, which no
  execution produces.
\<close>

datatype error =
    CompilerBug
  | SyntaxError "nat option"
  | DivisionByZero "nat option"
  | FunctionArgumentNumberMismatch "nat option"
  | IndexError "nat option"
  | InvalidFormat "nat option"
  | InvalidType "nat option"
  | NativeFunctionArgumentNumberMismatch "nat option"
  | VariableAlreadyDeclared "nat option"
  | VariableAlreadyDeclaredInScope "nat option"
  | VariableNotDeclared "nat option"
  | TypeError
  | RangeError
  | DanglingReference

record Program =
  ptext :: "Instruction list"
  pdata :: "Value list"

text \<open>
  \<^verbatim>\<open>class CallFrame\<close>. The operand stack is a JavaScript array: the bottom is the
  first element, and \<^verbatim>\<open>push\<close> and \<^verbatim>\<open>pop\<close> work at the end. The instruction
  pointer is a number: \<open>None\<close> is NaN, which \<^verbatim>\<open>value - 1\<close> yields for a jump
  without operand.

  A JavaScript array is an object: \<^verbatim>\<open>this.stack[value] = x\<close> with an operand that is
  not an array index (a negative one, or none) does not touch the elements but sets a
  named property of the array, which \<^verbatim>\<open>this.stack[value]\<close> reads back. \<open>sprops\<close>
  holds these properties of the stack, by operand.
\<close>

record CallFrame =
  ip :: "int option"
  stack :: "Value list"
  ftext :: "Instruction list"
  sprops :: "(int option \<times> Value) list"

datatype VMStatus = RUNNING | HALTED | ERROR | SYSCALL_S

record Syscall =
  sys_name :: string
  sys_args :: "Value list"

text \<open>
  \<^verbatim>\<open>interface VMImage\<close>. The field \<^verbatim>\<open>state\<close> is the string that the
  class-transformer library and \<^verbatim>\<open>btoa\<close> produce; the library is not part of the
  repository, so the type of encoded states is a parameter. The last section of the
  model gives the encoding as the specification describes it.
\<close>

record 'blob VMImage =
  img_state :: 'blob
  img_status :: VMStatus
  img_syscall :: "Syscall option"

text \<open>
  \<^verbatim>\<open>class VM\<close>. \<open>frames\<close> has the innermost frame last (\<^verbatim>\<open>frames.push\<close>,
  \<^verbatim>\<open>frames.at(-1)\<close>). \<open>globals\<close> is a JavaScript \<^verbatim>\<open>Map\<close>, which keeps
  insertion order: an association list whose keys are payloads
  (\<^verbatim>\<open>this.data[value].value\<close>). \<open>heap\<close> holds the arrays that Tuple and List
  values refer to; the address of an array is its index, and a new array is appended.
  \<open>hprops\<close> holds the named properties of these arrays, which
  \<^verbatim>\<open>name.value[key.value] = value\<close> sets for a key that is not an array index (a
  negative or fractional number), by address and key.
\<close>

record VM =
  vdata :: "Value list"
  frames :: "CallFrame list"
  globals :: "(payload \<times> Value) list"
  syscall :: "Syscall option"
  heap :: "Value list list"
  hprops :: "((nat \<times> rat) \<times> Value) list"

text \<open>
  Modelled from the spec: the registries of \<^verbatim>\<open>./native\<close> and \<^verbatim>\<open>./syscall\<close>, which
  are not among the sources. They are parameters of the machine, with the fields that
  \<^verbatim>\<open>vm.ts\<close> reads: a mapping from name to arity and implementation, and a mapping
  from name to syscall id and preprocessor. A native function receives the line number
  and the arguments and returns a value or raises; it may read and change the arrays
  it is given. A syscall's preprocessor re-packs the arguments or raises.
\<close>

record NativeInfo =
  nargs :: int
  nfunction :: "Value list list \<Rightarrow> nat option \<Rightarrow> Value list \<Rightarrow> error + (Value \<times> Value list list)"

record SyscallInfo =
  syscallId :: string
  preprocessor :: "Value list \<Rightarrow> nat option \<Rightarrow> error + Value list"

record Env =
  natives :: "(string \<times> NativeInfo) list"
  syscalls :: "(string \<times> SyscallInfo) list"

section \<open>Errors, operand stack and heap access\<close>

text \<open>Sequencing of computations that may raise: the first exception wins.\<close>

definition bind_err :: "error + 'a \<Rightarrow> ('a \<Rightarrow> error + 'b) \<Rightarrow> error + 'b" where
  "bind_err m f = (case m of Inl e \<Rightarrow> Inl e | Inr x \<Rightarrow> f x)"

text \<open>\<^verbatim>\<open>Stack.pop\<close>: raises CompilerBug on an empty stack.\<close>

definition pop :: "Value list \<Rightarrow> error + (Value \<times> Value list)" where
  "pop st = (if st = [] then Inl CompilerBug else Inr (last st, butlast st))"

text \<open>\<^verbatim>\<open>const a = this.stack.pop(); const b = this.stack.pop();\<close>\<close>

definition pop2 :: "Value list \<Rightarrow> error + (Value \<times> Value \<times> Value list)" where
  "pop2 st = bind_err (pop st) (\<lambda>(a, st1). bind_err (pop st1) (\<lambda>(b, st2). Inr (a, b, st2)))"

text \<open>
  \<^verbatim>\<open>for (let i = 0; i < value; i++) args.unshift(this.stack.pop());\<close> The loop body
  never runs when the operand is missing or not positive.
\<close>

fun pop_n :: "nat \<Rightarrow> Value list \<Rightarrow> Value list \<Rightarrow> error + (Value list \<times> Value list)" where
  "pop_n 0 st acc = Inr (acc, st)"
| "pop_n (Suc k) st acc = bind_err (pop st) (\<lambda>(x, st1). pop_n k st1 (x # acc))"

definition loop_count :: "int option \<Rightarrow> nat" where
  "loop_count v = (case v of None \<Rightarrow> 0 | Some k \<Rightarrow> nat k)"

text \<open>\<^verbatim>\<open>this.stack\<close>, \<^verbatim>\<open>this.ip\<close> and their updates, on the innermost frame.\<close>

definition cur_stack :: "VM \<Rightarrow> Value list" where
  "cur_stack vm = stack (last (frames vm))"

definition set_stack :: "Value list \<Rightarrow> VM \<Rightarrow> VM" where
  "set_stack st vm = vm\<lparr>frames := butlast (frames vm) @ [(last (frames vm))\<lparr>stack := st\<rparr>]\<rparr>"

definition set_ip :: "int option \<Rightarrow> VM \<Rightarrow> VM" where
  "set_ip i vm = vm\<lparr>frames := butlast (frames vm) @ [(last (frames vm))\<lparr>ip := i\<rparr>]\<rparr>"

text \<open>
  Reading \<^verbatim>\<open>xs[i]\<close> from the elements of a JavaScript array: \<^verbatim>\<open>undefined\<close> out
  of range.
\<close>

definition js_index :: "Value list \<Rightarrow> int option \<Rightarrow> Value" where
  "js_index xs i = (case i of None \<Rightarrow> Undefined
     | Some k \<Rightarrow> if 0 \<le> k \<and> k < int (length xs) then xs ! nat k else Undefined)"

text \<open>
  Writing \<^verbatim>\<open>xs[n] = v\<close> at an array index: within the array the element is
  replaced; past the end the array grows and the gap reads as \<^verbatim>\<open>undefined\<close>.
\<close>

definition js_store :: "Value list \<Rightarrow> nat \<Rightarrow> Value \<Rightarrow> Value list" where
  "js_store xs n v = (if n < length xs then xs[n := v]
     else xs @ replicate (n - length xs) Undefined @ [v])"

text \<open>Reading a named property: \<^verbatim>\<open>undefined\<close> when it was never set.\<close>

definition js_prop :: "('k \<times> Value) list \<Rightarrow> 'k \<Rightarrow> Value" where
  "js_prop ps k = (case map_of ps k of None \<Rightarrow> Undefined | Some x \<Rightarrow> x)"

text \<open>
  \<^verbatim>\<open>this.stack[value]\<close> as a read and as a write. A non-negative operand is an
  array index; any other is the name of a property.
\<close>

definition stack_get :: "CallFrame \<Rightarrow> int option \<Rightarrow> Value" where
  "stack_get f v = (case v of None \<Rightarrow> js_prop (sprops f) v
     | Some k \<Rightarrow> if 0 \<le> k then js_index (stack f) v else js_prop (sprops f) v)"

definition stack_put :: "CallFrame \<Rightarrow> int option \<Rightarrow> Value \<Rightarrow> CallFrame" where
  "stack_put f v x = (case v of None \<Rightarrow> f\<lparr>sprops := AList.update v x (sprops f)\<rparr>
     | Some k \<Rightarrow> if 0 \<le> k then f\<lparr>stack := js_store (stack f) (nat k) x\<rparr>
                 else f\<lparr>sprops := AList.update v x (sprops f)\<rparr>)"

text \<open>
  A Number payload used as a key: an array index only if it is a non-negative integer.
\<close>

definition key_index :: "rat \<Rightarrow> nat option" where
  "key_index q = (if q = of_int \<lfloor>q\<rfloor> \<and> 0 \<le> q then Some (nat \<lfloor>q\<rfloor>) else None)"

text \<open>
  \<^verbatim>\<open>container.value[key.value]\<close> as a read and as a write, for the array \<open>xs\<close> at
  the address \<open>a\<close>.
\<close>

definition array_get :: "VM \<Rightarrow> nat \<Rightarrow> Value list \<Rightarrow> rat \<Rightarrow> Value" where
  "array_get vm a xs q = (case key_index q of None \<Rightarrow> js_prop (hprops vm) (a, q)
     | Some n \<Rightarrow> js_index xs (Some (int n)))"

definition array_put :: "VM \<Rightarrow> nat \<Rightarrow> Value list \<Rightarrow> rat \<Rightarrow> Value \<Rightarrow> VM" where
  "array_put vm a xs q x = (case key_index q of
       None \<Rightarrow> vm\<lparr>hprops := AList.update (a, q) x (hprops vm)\<rparr>
     | Some n \<Rightarrow> vm\<lparr>heap := (heap vm)[a := js_store xs n x]\<rparr>)"

text \<open>The array at an address of the heap.\<close>

definition array_at :: "Value list list \<Rightarrow> nat \<Rightarrow> error + Value list" where
  "array_at h a = (if a < length h then Inr (h ! a) else Inl DanglingReference)"

text \<open>
  The type checks. \<^verbatim>\<open>if (a.type !== ValueType.NUMBER) throw new InvalidType(...)\<close>
  raises a TypeError when \<^verbatim>\<open>a\<close> is \<^verbatim>\<open>undefined\<close>.
\<close>

definition need_number :: "nat option \<Rightarrow> Value \<Rightarrow> error + rat" where
  "need_number line v = (case v of Number n \<Rightarrow> Inr n | Undefined \<Rightarrow> Inl TypeError
     | _ \<Rightarrow> Inl (InvalidType line))"

definition need_boolean :: "nat option \<Rightarrow> Value \<Rightarrow> error + bool" where
  "need_boolean line v = (case v of Boolean b \<Rightarrow> Inr b | Undefined \<Rightarrow> Inl TypeError
     | _ \<Rightarrow> Inl (InvalidType line))"

text \<open>JavaScript's \<^verbatim>\<open>%\<close>: the remainder of the division truncated towards zero.\<close>

definition js_rem :: "rat \<Rightarrow> rat \<Rightarrow> rat" where
  "js_rem b a = b - a * of_int (if 0 \<le> b / a then \<lfloor>b / a\<rfloor> else \<lceil>b / a\<rceil>)"

section \<open>The opcodes (VM.execute)\<close>

text \<open>
  In every opcode, \<open>a\<close> is popped first and is the right operand, \<open>b\<close> the left.
\<close>

definition exec_PUSH :: "int option \<Rightarrow> VM \<Rightarrow> error + VM" where
  "exec_PUSH v vm = Inr (set_stack (cur_stack vm @ [js_index (vdata vm) v]) vm)"

definition exec_POP :: "VM \<Rightarrow> error + VM" where
  "exec_POP vm = bind_err (pop (cur_stack vm)) (\<lambda>(a, st1). Inr (set_stack st1 vm))"

definition exec_OR :: "nat option \<Rightarrow> VM \<Rightarrow> error + VM" where
  "exec_OR line vm = bind_err (pop2 (cur_stack vm)) (\<lambda>(a, b, st2).
     bind_err (need_boolean line a) (\<lambda>x. bind_err (need_boolean line b) (\<lambda>y.
       Inr (set_stack (st2 @ [Boolean (y \<or> x)]) vm))))"

definition exec_AND :: "nat option \<Rightarrow> VM \<Rightarrow> error + VM" where
  "exec_AND line vm = bind_err (pop2 (cur_stack vm)) (\<lambda>(a, b, st2).
     bind_err (need_boolean line a) (\<lambda>x. bind_err (need_boolean line b) (\<lambda>y.
       Inr (set_stack (st2 @ [Boolean (y \<and> x)]) vm))))"

text \<open>
  ADD. On two Lists, \<^verbatim>\<open>value && value === 1\<close> selects the append in place
  (\<^verbatim>\<open>b.value.push(...a.value); this.stack.push(b)\<close>); any other operand allocates
  \<^verbatim>\<open>Value.list(b.value.concat(a.value))\<close>. The condition chain reads \<^verbatim>\<open>a.type\<close>
  first and \<^verbatim>\<open>b.type\<close> on every path, the last one in the message of InvalidType.
\<close>

definition exec_ADD :: "int option \<Rightarrow> nat option \<Rightarrow> VM \<Rightarrow> error + VM" where
  "exec_ADD v line vm = bind_err (pop2 (cur_stack vm)) (\<lambda>(a, b, st2).
     if a = Undefined \<or> b = Undefined then Inl TypeError
     else case (a, b) of
       (Number x, Number y) \<Rightarrow> Inr (set_stack (st2 @ [Number (y + x)]) vm)
     | (String x, String y) \<Rightarrow> Inr (set_stack (st2 @ [String (y @ x)]) vm)
     | (List la, List lb) \<Rightarrow>
         bind_err (array_at (heap vm) la) (\<lambda>xs. bind_err (array_at (heap vm) lb) (\<lambda>ys.
           if v = Some 1
           then Inr (set_stack (st2 @ [List lb]) (vm\<lparr>heap := (heap vm)[lb := ys @ xs]\<rparr>))
           else Inr (set_stack (st2 @ [List (length (heap vm))])
                  (vm\<lparr>heap := heap vm @ [ys @ xs]\<rparr>))))
     | _ \<Rightarrow> Inl (InvalidType line))"

text \<open>SUB builds its message from \<^verbatim>\<open>a.value\<close> and \<^verbatim>\<open>b.value\<close> before raising.\<close>

definition exec_SUB :: "nat option \<Rightarrow> VM \<Rightarrow> error + VM" where
  "exec_SUB line vm = bind_err (pop2 (cur_stack vm)) (\<lambda>(a, b, st2).
     if a = Undefined \<or> b = Undefined then Inl TypeError
     else case (a, b) of
       (Number x, Number y) \<Rightarrow> Inr (set_stack (st2 @ [Number (y - x)]) vm)
     | _ \<Rightarrow> Inl (InvalidType line))"

text \<open>The numeric opcodes that check \<^verbatim>\<open>a\<close>, then \<^verbatim>\<open>b\<close>, then compute.\<close>

definition exec_num2 :: "(rat \<Rightarrow> rat \<Rightarrow> error + Value) \<Rightarrow> nat option \<Rightarrow> VM \<Rightarrow> error + VM" where
  "exec_num2 f line vm = bind_err (pop2 (cur_stack vm)) (\<lambda>(a, b, st2).
     bind_err (need_number line a) (\<lambda>x. bind_err (need_number line b) (\<lambda>y.
       bind_err (f x y) (\<lambda>r. Inr (set_stack (st2 @ [r]) vm)))))"

definition exec_MUL :: "nat option \<Rightarrow> VM \<Rightarrow> error + VM" where
  "exec_MUL line = exec_num2 (\<lambda>x y. Inr (Number (x * y))) line"

definition exec_DIV :: "nat option \<Rightarrow> VM \<Rightarrow> error + VM" where
  "exec_DIV line = exec_num2 (\<lambda>x y. if x = 0 then Inl (DivisionByZero line) else Inr (Number (y / x))) line"

definition exec_MOD :: "nat option \<Rightarrow> VM \<Rightarrow> error + VM" where
  "exec_MOD line = exec_num2 (\<lambda>x y. if x = 0 then Inl (DivisionByZero line) else Inr (Number (js_rem y x))) line"

definition exec_LT :: "nat option \<Rightarrow> VM \<Rightarrow> error + VM" where
  "exec_LT line = exec_num2 (\<lambda>x y. Inr (Boolean (y < x))) line"

definition exec_GT :: "nat option \<Rightarrow> VM \<Rightarrow> error + VM" where
  "exec_GT line = exec_num2 (\<lambda>x y. Inr (Boolean (y > x))) line"

definition exec_LTE :: "nat option \<Rightarrow> VM \<Rightarrow> error + VM" where
  "exec_LTE line = exec_num2 (\<lambda>x y. Inr (Boolean (y \<le> x))) line"

definition exec_GTE :: "nat option \<Rightarrow> VM \<Rightarrow> error + VM" where
  "exec_GTE line = exec_num2 (\<lambda>x y. Inr (Boolean (y \<ge> x))) line"

text \<open>
  EQ and NEQ: \<^verbatim>\<open>a.type === b.type && b.value === a.value\<close> and
  \<^verbatim>\<open>a.type !== b.type || b.value !== a.value\<close>. \<^verbatim>\<open>a.type\<close> is read first, then
  \<^verbatim>\<open>b.type\<close>; either raises a TypeError on \<^verbatim>\<open>undefined\<close>.
\<close>

definition js_eq :: "Value \<Rightarrow> Value \<Rightarrow> error + bool" where
  "js_eq a b = (if a = Undefined \<or> b = Undefined then Inl TypeError
     else Inr (vtype a = vtype b \<and> payload_of b = payload_of a))"

definition js_neq :: "Value \<Rightarrow> Value \<Rightarrow> error + bool" where
  "js_neq a b = (if a = Undefined \<or> b = Undefined then Inl TypeError
     else Inr (vtype a \<noteq> vtype b \<or> payload_of b \<noteq> payload_of a))"

definition exec_EQ :: "VM \<Rightarrow> error + VM" where
  "exec_EQ vm = bind_err (pop2 (cur_stack vm)) (\<lambda>(a, b, st2).
     bind_err (js_eq a b) (\<lambda>r. Inr (set_stack (st2 @ [Boolean r]) vm)))"

definition exec_NEQ :: "VM \<Rightarrow> error + VM" where
  "exec_NEQ vm = bind_err (pop2 (cur_stack vm)) (\<lambda>(a, b, st2).
     bind_err (js_neq a b) (\<lambda>r. Inr (set_stack (st2 @ [Boolean r]) vm)))"

text \<open>
  The jumps: \<^verbatim>\<open>this.ip = value - 1\<close>, which is NaN without operand. JUMPF and
  JUMPT read \<^verbatim>\<open>.value\<close> of what they pop.
\<close>

definition jump_target :: "int option \<Rightarrow> int option" where
  "jump_target v = map_option (\<lambda>t. t - 1) v"

definition exec_JUMP :: "int option \<Rightarrow> VM \<Rightarrow> error + VM" where
  "exec_JUMP v vm = Inr (set_ip (jump_target v) vm)"

definition exec_JUMPF :: "int option \<Rightarrow> VM \<Rightarrow> error + VM" where
  "exec_JUMPF v vm = bind_err (pop (cur_stack vm)) (\<lambda>(a, st1).
     case payload_of a of None \<Rightarrow> Inl TypeError
     | Some p \<Rightarrow> if \<not> truthy p then Inr (set_ip (jump_target v) (set_stack st1 vm))
                 else Inr (set_stack st1 vm))"

definition exec_JUMPT :: "int option \<Rightarrow> VM \<Rightarrow> error + VM" where
  "exec_JUMPT v vm = bind_err (pop (cur_stack vm)) (\<lambda>(a, st1).
     case payload_of a of None \<Rightarrow> Inl TypeError
     | Some p \<Rightarrow> if truthy p then Inr (set_ip (jump_target v) (set_stack st1 vm))
                 else Inr (set_stack st1 vm))"

text \<open>
  CALL, one definition per branch of the dispatch on \<^verbatim>\<open>func.type\<close>. The operands
  have been popped from the caller's stack when the branch runs.
\<close>

definition call_native :: "Env \<Rightarrow> int option \<Rightarrow> nat option \<Rightarrow> string \<Rightarrow> Value list \<Rightarrow> VM \<Rightarrow> error + VM" where
  "call_native env v line nm as vm =
     (case map_of (natives env) nm of None \<Rightarrow> Inl CompilerBug
      | Some info \<Rightarrow>
          if Some (nargs info) \<noteq> v then Inl (NativeFunctionArgumentNumberMismatch line)
          else bind_err (nfunction info (heap vm) line as) (\<lambda>(result, h).
            Inr (set_stack (cur_stack vm @ [result]) (vm\<lparr>heap := h\<rparr>))))"

definition call_function :: "int option \<Rightarrow> nat option \<Rightarrow> Value \<Rightarrow> Function \<Rightarrow> Value list \<Rightarrow> VM \<Rightarrow> error + VM" where
  "call_function v line func f as vm =
     (if Some (int (length (args f))) \<noteq> v then Inl (FunctionArgumentNumberMismatch line)
      else Inr (vm\<lparr>frames := frames vm @
             [\<lparr>ip = Some (- 1), stack = func # as, ftext = body f, sprops = []\<rparr>]\<rparr>))"

definition call_syscall :: "Env \<Rightarrow> nat option \<Rightarrow> string \<Rightarrow> Value list \<Rightarrow> VM \<Rightarrow> error + VM" where
  "call_syscall env line syscallName as vm =
     (case map_of (syscalls env) syscallName of None \<Rightarrow> Inl CompilerBug
      | Some info \<Rightarrow>
          bind_err (preprocessor info as line) (\<lambda>processedArgs.
            if syscallName = ''syscall'' then
              (case processedArgs of [] \<Rightarrow> Inl TypeError
               | String s # rest \<Rightarrow> Inr (vm\<lparr>syscall := Some \<lparr>sys_name = s, sys_args = rest\<rparr>\<rparr>)
               | Undefined # rest \<Rightarrow> Inl TypeError
               | _ # rest \<Rightarrow> Inl (InvalidType line))
            else Inr (vm\<lparr>syscall := Some \<lparr>sys_name = syscallId info, sys_args = processedArgs\<rparr>\<rparr>)))"

definition exec_CALL :: "Env \<Rightarrow> int option \<Rightarrow> nat option \<Rightarrow> VM \<Rightarrow> error + VM" where
  "exec_CALL env v line vm =
     bind_err (pop_n (loop_count v) (cur_stack vm) []) (\<lambda>(as, st1).
     bind_err (pop st1) (\<lambda>(func, st2).
       case func of
         Undefined \<Rightarrow> Inl TypeError
       | Native nm \<Rightarrow> call_native env v line nm as (set_stack st2 vm)
       | Function r f \<Rightarrow> call_function v line func f as (set_stack st2 vm)
       | Syscall nm \<Rightarrow> call_syscall env line nm as (set_stack st2 vm)
       | _ \<Rightarrow> Inl (InvalidType line)))"

text \<open>
  RET. \<^verbatim>\<open>this.frames.at(-2).stack\<close> is evaluated before the argument of
  \<^verbatim>\<open>push\<close>: without a caller frame it raises a TypeError, in both branches.
\<close>

definition exec_RET :: "int option \<Rightarrow> VM \<Rightarrow> error + VM" where
  "exec_RET v vm =
     (if length (frames vm) < 2 then Inl TypeError
      else bind_err (if v = Some 1 then bind_err (pop (cur_stack vm)) (\<lambda>(a, st1). Inr a)
                     else Inr Null) (\<lambda>r.
        let caller = last (butlast (frames vm))
        in Inr (vm\<lparr>frames := butlast (butlast (frames vm)) @ [caller\<lparr>stack := stack caller @ [r]\<rparr>]\<rparr>)))"

text \<open>
  STORE and LOAD: \<^verbatim>\<open>this.stack[value] = this.stack.at(-1)\<close> and
  \<^verbatim>\<open>this.stack.push(this.stack[value])\<close>.
\<close>

definition exec_STORE :: "int option \<Rightarrow> VM \<Rightarrow> error + VM" where
  "exec_STORE v vm =
     Inr (vm\<lparr>frames := butlast (frames vm) @
       [stack_put (last (frames vm)) v
          (if cur_stack vm = [] then Undefined else last (cur_stack vm))]\<rparr>)"

definition exec_LOAD :: "int option \<Rightarrow> VM \<Rightarrow> error + VM" where
  "exec_LOAD v vm = Inr (set_stack (cur_stack vm @ [stack_get (last (frames vm)) v]) vm)"

text \<open>
  The globals. \<^verbatim>\<open>this.data[value].value\<close> raises a TypeError when the pool has no
  such entry.
\<close>

definition global_id :: "int option \<Rightarrow> VM \<Rightarrow> error + payload" where
  "global_id v vm = (case payload_of (js_index (vdata vm) v) of None \<Rightarrow> Inl TypeError
     | Some p \<Rightarrow> Inr p)"

definition exec_DECLAREGL :: "int option \<Rightarrow> nat option \<Rightarrow> VM \<Rightarrow> error + VM" where
  "exec_DECLAREGL v line vm = bind_err (global_id v vm) (\<lambda>ident.
     if map_of (globals vm) ident \<noteq> None then Inl (VariableAlreadyDeclared line)
     else bind_err (pop (cur_stack vm)) (\<lambda>(a, st1).
       Inr (set_stack st1 (vm\<lparr>globals := AList.update ident a (globals vm)\<rparr>))))"

definition exec_LOADGL :: "int option \<Rightarrow> nat option \<Rightarrow> VM \<Rightarrow> error + VM" where
  "exec_LOADGL v line vm = bind_err (global_id v vm) (\<lambda>ident.
     case map_of (globals vm) ident of None \<Rightarrow> Inl (VariableNotDeclared line)
     | Some x \<Rightarrow> Inr (set_stack (cur_stack vm @ [x]) vm))"

definition exec_SETGL :: "int option \<Rightarrow> nat option \<Rightarrow> VM \<Rightarrow> error + VM" where
  "exec_SETGL v line vm = bind_err (global_id v vm) (\<lambda>ident.
     if map_of (globals vm) ident = None then Inl (VariableNotDeclared line)
     else Inr (vm\<lparr>globals := AList.update ident
            (if cur_stack vm = [] then Undefined else last (cur_stack vm)) (globals vm)\<rparr>))"

definition exec_num1 :: "(rat \<Rightarrow> rat) \<Rightarrow> nat option \<Rightarrow> VM \<Rightarrow> error + VM" where
  "exec_num1 f line vm = bind_err (pop (cur_stack vm)) (\<lambda>(a, st1).
     bind_err (need_number line a) (\<lambda>x. Inr (set_stack (st1 @ [Number (f x)]) vm)))"

definition exec_NEG :: "nat option \<Rightarrow> VM \<Rightarrow> error + VM" where
  "exec_NEG line = exec_num1 (\<lambda>x. - x) line"

definition exec_INC :: "nat option \<Rightarrow> VM \<Rightarrow> error + VM" where
  "exec_INC line = exec_num1 (\<lambda>x. x + 1) line"

definition exec_DEC :: "nat option \<Rightarrow> VM \<Rightarrow> error + VM" where
  "exec_DEC line = exec_num1 (\<lambda>x. x - 1) line"

definition exec_COPY :: "VM \<Rightarrow> error + VM" where
  "exec_COPY vm = bind_err (pop (cur_stack vm)) (\<lambda>(a, st1). Inr (set_stack (st1 @ [a, a]) vm))"

text \<open>MAKE\_TUPLE and MAKE\_LIST allocate a new array for the popped elements.\<close>

definition exec_MAKE :: "(nat \<Rightarrow> Value) \<Rightarrow> int option \<Rightarrow> VM \<Rightarrow> error + VM" where
  "exec_MAKE mk v vm = bind_err (pop_n (loop_count v) (cur_stack vm) []) (\<lambda>(elements, st1).
     Inr (set_stack (st1 @ [mk (length (heap vm))]) (vm\<lparr>heap := heap vm @ [elements]\<rparr>)))"

text \<open>
  SUBSCRIPT. The range check is \<^verbatim>\<open>container.value.length < key.value\<close>; the read
  \<^verbatim>\<open>container.value[key.value]\<close> follows it.
\<close>

definition container_address :: "nat option \<Rightarrow> Value \<Rightarrow> error + nat" where
  "container_address line c = (case c of Tuple a \<Rightarrow> Inr a | List a \<Rightarrow> Inr a
     | Undefined \<Rightarrow> Inl TypeError | _ \<Rightarrow> Inl (InvalidType line))"

definition exec_SUBSCRIPT :: "nat option \<Rightarrow> VM \<Rightarrow> error + VM" where
  "exec_SUBSCRIPT line vm = bind_err (pop2 (cur_stack vm)) (\<lambda>(key, container, st2).
     bind_err (container_address line container) (\<lambda>a.
     bind_err (need_number line key) (\<lambda>k.
     bind_err (array_at (heap vm) a) (\<lambda>xs.
       if rat_of_nat (length xs) < k then Inl (IndexError line)
       else Inr (set_stack (st2 @ [array_get vm a xs k]) vm)))))"

text \<open>
  STORE\_SUBSCRIPT pops the key and the list, checks them, and only then pops the
  value.
\<close>

definition list_address :: "nat option \<Rightarrow> Value \<Rightarrow> error + nat" where
  "list_address line c = (case c of List a \<Rightarrow> Inr a
     | Undefined \<Rightarrow> Inl TypeError | _ \<Rightarrow> Inl (InvalidType line))"

definition exec_STORE_SUBSCRIPT :: "nat option \<Rightarrow> VM \<Rightarrow> error + VM" where
  "exec_STORE_SUBSCRIPT line vm = bind_err (pop2 (cur_stack vm)) (\<lambda>(key, nm, st2).
     bind_err (list_address line nm) (\<lambda>a.
     bind_err (need_number line key) (\<lambda>k.
     bind_err (pop st2) (\<lambda>(val, st3).
     bind_err (array_at (heap vm) a) (\<lambda>xs.
       Inr (set_stack (st3 @ [val]) (array_put vm a xs k val)))))))"

definition exec_NOT :: "nat option \<Rightarrow> VM \<Rightarrow> error + VM" where
  "exec_NOT line vm = bind_err (pop (cur_stack vm)) (\<lambda>(a, st1).
     bind_err (need_boolean line a) (\<lambda>x. Inr (set_stack (st1 @ [Boolean (\<not> x)]) vm)))"

text \<open>
  \<^verbatim>\<open>execute\<close>: the \<^verbatim>\<open>switch\<close> on the opcode. NOP and the \<^verbatim>\<open>default\<close> case do
  not touch the frames; every other case reads \<^verbatim>\<open>this.stack\<close>, \<^verbatim>\<open>this.ip\<close> or
  \<^verbatim>\<open>this.frames.at(-2).stack\<close>, a TypeError when there is no frame.
\<close>

definition dispatch :: "Env \<Rightarrow> Instruction \<Rightarrow> VM \<Rightarrow> error + VM" where
  "dispatch env i vm = (let v = ivalue i; line = lineNumber i in
     case itype i of
       PUSH \<Rightarrow> exec_PUSH v vm
     | POP \<Rightarrow> exec_POP vm
     | OR \<Rightarrow> exec_OR line vm
     | AND \<Rightarrow> exec_AND line vm
     | ADD \<Rightarrow> exec_ADD v line vm
     | SUB \<Rightarrow> exec_SUB line vm
     | MUL \<Rightarrow> exec_MUL line vm
     | DIV \<Rightarrow> exec_DIV line vm
     | MOD \<Rightarrow> exec_MOD line vm
     | LT \<Rightarrow> exec_LT line vm
     | GT \<Rightarrow> exec_GT line vm
     | LTE \<Rightarrow> exec_LTE line vm
     | GTE \<Rightarrow> exec_GTE line vm
     | EQ \<Rightarrow> exec_EQ vm
     | NEQ \<Rightarrow> exec_NEQ vm
     | JUMP \<Rightarrow> exec_JUMP v vm
     | JUMPF \<Rightarrow> exec_JUMPF v vm
     | JUMPT \<Rightarrow> exec_JUMPT v vm
     | CALL \<Rightarrow> exec_CALL env v line vm
     | RET \<Rightarrow> exec_RET v vm
     | DATA \<Rightarrow> exec_PUSH v vm
     | STORE \<Rightarrow> exec_STORE v vm
     | LOAD \<Rightarrow> exec_LOAD v vm
     | DECLAREGL \<Rightarrow> exec_DECLAREGL v line vm
     | LOADGL \<Rightarrow> exec_LOADGL v line vm
     | SETGL \<Rightarrow> exec_SETGL v line vm
     | NEG \<Rightarrow> exec_NEG line vm
     | INC \<Rightarrow> exec_INC line vm
     | DEC \<Rightarrow> exec_DEC line vm
     | COPY \<Rightarrow> exec_COPY vm
     | MAKE_TUPLE \<Rightarrow> exec_MAKE Tuple v vm
     | MAKE_LIST \<Rightarrow> exec_MAKE List v vm
     | SUBSCRIPT \<Rightarrow> exec_SUBSCRIPT line vm
     | STORE_SUBSCRIPT \<Rightarrow> exec_STORE_SUBSCRIPT line vm
     | NOT \<Rightarrow> exec_NOT line vm
     | NOP \<Rightarrow> Inr vm
     | _ \<Rightarrow> Inl CompilerBug)"

definition handled :: "Opcode \<Rightarrow> bool" where
  "handled c = (c \<notin> {GTEQ, JUMPTF, HALT, PRINT, INPUT, SYSCALL, NATIVE})"

definition execute :: "Env \<Rightarrow> Instruction \<Rightarrow> VM \<Rightarrow> error + VM" where
  "execute env i vm =
     (if itype i = NOP then Inr vm
      else if \<not> handled (itype i) then Inl CompilerBug
      else if frames vm = [] then Inl TypeError
      else dispatch env i vm)"

section \<open>The main loop, snapshots and resumption (VM.run, serialize, deserialize, create)\<close>

text \<open>
  \<^verbatim>\<open>const instruction = this.text[this.ip]\<close>; \<^verbatim>\<open>execute\<close> destructures it, a
  TypeError when the instruction pointer is outside the text.
\<close>

definition fetch :: "VM \<Rightarrow> error + Instruction" where
  "fetch vm =
     (if frames vm = [] then Inl TypeError
      else case ip (last (frames vm)) of None \<Rightarrow> Inl TypeError
        | Some i \<Rightarrow> if 0 \<le> i \<and> i < int (length (ftext (last (frames vm))))
                    then Inr (ftext (last (frames vm)) ! nat i) else Inl TypeError)"

text \<open>\<^verbatim>\<open>this.ip++\<close>, on the frame that is innermost after the instruction.\<close>

definition advance :: "VM \<Rightarrow> error + VM" where
  "advance vm =
     (if frames vm = [] then Inl TypeError
      else Inr (set_ip (map_option (\<lambda>i. i + 1) (ip (last (frames vm)))) vm))"

text \<open>\<^verbatim>\<open>if (this.ip >= this.text.length) this.frames.pop()\<close>; NaN compares false.\<close>

definition fall_off :: "VM \<Rightarrow> VM" where
  "fall_off vm = (case ip (last (frames vm)) of None \<Rightarrow> vm
     | Some i \<Rightarrow> if i \<ge> int (length (ftext (last (frames vm))))
                 then vm\<lparr>frames := butlast (frames vm)\<rparr> else vm)"

text \<open>One pass through the body of the \<^verbatim>\<open>while\<close> loop of \<^verbatim>\<open>run\<close>.\<close>

definition iteration :: "Env \<Rightarrow> VM \<Rightarrow> error + VM" where
  "iteration env vm = bind_err (fetch vm) (\<lambda>i. bind_err (execute env i vm) (\<lambda>vm1.
     bind_err (advance vm1) (\<lambda>vm2. Inr (fall_off vm2))))"

text \<open>
  The loop \<^verbatim>\<open>while (steps-- > 0 && this.frames.length > 0 && !this.syscall)\<close> with
  a finite budget of steps, and its \<^verbatim>\<open>break\<close> when the last frame has been popped.
\<close>

fun run_loop :: "Env \<Rightarrow> nat \<Rightarrow> VM \<Rightarrow> error + VM" where
  "run_loop env 0 vm = Inr vm"
| "run_loop env (Suc n) vm =
     (if frames vm \<noteq> [] \<and> syscall vm = None
      then bind_err (iteration env vm) (\<lambda>vm1.
             if frames vm1 = [] then Inr vm1 else run_loop env n vm1)
      else Inr vm)"

text \<open>
  The same loop with the default budget \<^verbatim>\<open>Infinity\<close>. It need not terminate:
  \<open>None\<close> is the run that never returns.
\<close>

partial_function (option) run_unbounded :: "Env \<Rightarrow> VM \<Rightarrow> (error + VM) option" where
  "run_unbounded env vm =
     (if frames vm \<noteq> [] \<and> syscall vm = None
      then (case iteration env vm of Inl e \<Rightarrow> Some (Inl e)
            | Inr vm1 \<Rightarrow> if frames vm1 = [] then Some (Inr vm1) else run_unbounded env vm1)
      else Some (Inr vm))"

text \<open>
  \<^verbatim>\<open>serialize\<close>. The encoder \<open>enc\<close> stands for
  \<^verbatim>\<open>btoa(serialize(this))\<close> of the class-transformer library; an exception that
  it raises leaves \<^verbatim>\<open>serialize\<close> without an image.
\<close>

definition serialize :: "(VM \<Rightarrow> error + 'blob) \<Rightarrow> VM \<Rightarrow> VMStatus \<Rightarrow> Syscall option \<Rightarrow> error + 'blob VMImage" where
  "serialize enc vm st sc =
     bind_err (enc vm) (\<lambda>s. Inr \<lparr>img_state = s, img_status = st, img_syscall = sc\<rparr>)"

text \<open>
  The status that \<^verbatim>\<open>run\<close> reports:
  \<^verbatim>\<open>this.syscall ? SYSCALL : this.frames.length === 0 ? HALTED : RUNNING\<close>.
\<close>

definition status_of :: "VM \<Rightarrow> VMStatus" where
  "status_of vm = (if syscall vm \<noteq> None then SYSCALL_S
     else if frames vm = [] then HALTED else RUNNING)"

definition snapshot :: "(VM \<Rightarrow> error + 'blob) \<Rightarrow> VM \<Rightarrow> error + 'blob VMImage" where
  "snapshot enc vm = serialize enc vm (status_of vm) (syscall vm)"

text \<open>
  \<^verbatim>\<open>run(steps)\<close> returns the image; the VM object itself has changed, so the model
  returns the new state beside it. An exception leaves \<^verbatim>\<open>run\<close> without an image.
\<close>

definition run :: "Env \<Rightarrow> (VM \<Rightarrow> error + 'blob) \<Rightarrow> nat \<Rightarrow> VM \<Rightarrow> error + ('blob VMImage \<times> VM)" where
  "run env enc steps vm = bind_err (run_loop env steps vm) (\<lambda>vm1.
     bind_err (snapshot enc vm1) (\<lambda>img. Inr (img, vm1)))"

text \<open>What the caller of \<^verbatim>\<open>run\<close> receives: the image, or the exception.\<close>

definition returned_image :: "error + ('blob VMImage \<times> VM) \<Rightarrow> error + 'blob VMImage" where
  "returned_image r = bind_err r (\<lambda>(img, vm1). Inr img)"

definition run_default :: "Env \<Rightarrow> (VM \<Rightarrow> error + 'blob) \<Rightarrow> VM \<Rightarrow> (error + ('blob VMImage \<times> VM)) option" where
  "run_default env enc vm = map_option (\<lambda>r. bind_err r (\<lambda>vm1.
     bind_err (snapshot enc vm1) (\<lambda>img. Inr (img, vm1)))) (run_unbounded env vm)"

text \<open>
  \<^verbatim>\<open>VM.deserialize(image, arg)\<close>. The decoder \<open>dec\<close> stands for
  \<^verbatim>\<open>deserialize(VM, atob(image.state))\<close>. \<^verbatim>\<open>vm.frames.at(-1).stack\<close> raises a
  TypeError when the decoded VM has no frame.
\<close>

definition deserialize :: "('blob \<Rightarrow> VM) \<Rightarrow> 'blob VMImage \<Rightarrow> Value \<Rightarrow> error + VM" where
  "deserialize dec img arg = (let vm = dec (img_state img) in
     bind_err (if img_status img = SYSCALL_S \<and> arg \<noteq> Undefined
               then (if frames vm = [] then Inl TypeError
                     else Inr (set_stack (cur_stack vm @ [arg]) vm))
               else Inr vm)
       (\<lambda>vm1. Inr (vm1\<lparr>syscall := None\<rparr>)))"

text \<open>
  \<^verbatim>\<open>VM.create\<close>: one root frame at instruction 0, and a global for every native and
  every syscall of the registries, in their order. The constant pool that the compiler
  builds holds no Tuple and no List, so the heap of a new VM is empty.
\<close>

definition defineNatives :: "Env \<Rightarrow> (payload \<times> Value) list \<Rightarrow> (payload \<times> Value) list" where
  "defineNatives env g = fold (\<lambda>(nm, info). AList.update (PString nm) (Native nm)) (natives env) g"

definition defineSyscalls :: "Env \<Rightarrow> (payload \<times> Value) list \<Rightarrow> (payload \<times> Value) list" where
  "defineSyscalls env g = fold (\<lambda>(nm, info). AList.update (PString nm) (Syscall nm)) (syscalls env) g"

definition create :: "Env \<Rightarrow> Program \<Rightarrow> VM" where
  "create env program =
     \<lparr>vdata = pdata program,
      frames = [\<lparr>ip = Some 0, stack = [], ftext = ptext program, sprops = []\<rparr>],
      globals = defineSyscalls env (defineNatives env []),
      syscall = None,
      heap = [],
      hprops = []\<rparr>"

section \<open>The encoded state\<close>

text \<open>
  Modelled from the spec: the encoding of a VM state. \<^verbatim>\<open>serialize(this)\<close> and
  \<^verbatim>\<open>deserialize(VM, ...)\<close> belong to the class-transformer library, which is not
  among the sources; they write the VM object as JSON text and read it back. The
  encoding holds \<open>data\<close>, \<open>frames[*].{ip, stack, text}\<close>, \<open>globals\<close> and the
  field \<^verbatim>\<open>syscall\<close>, and nothing else of the machine.

  A value is written with its payload. A Function carries its name, parameters and
  body, not its identity. A Tuple or List carries its elements: the array is written
  out at every place where it occurs, so the text does not tell whether two values
  shared one array. JSON has no \<^verbatim>\<open>undefined\<close>: an element that is
  \<^verbatim>\<open>undefined\<close> is written as \<^verbatim>\<open>null\<close>, which the VM treats alike (reading a
  field of either raises a TypeError). Named properties of an array are not written.
\<close>

datatype Plain =
    PlainString string
  | PlainNumber rat
  | PlainBoolean bool
  | PlainFunction Function
  | PlainNative string
  | PlainSyscall string
  | PlainTuple "Plain list"
  | PlainList "Plain list"
  | PlainNull
  | PlainUndefined

text \<open>
  A frame and the VM in the encoding. NaN is written as \<^verbatim>\<open>null\<close>, and
  \<^verbatim>\<open>this.text[this.ip]\<close> is \<^verbatim>\<open>undefined\<close> for both, so an instruction pointer
  that is \<open>None\<close> stays \<open>None\<close>. The keys of the globals, which are strings in
  every program that the compiler emits, are kept as they are, in their order.
\<close>

record PlainFrame =
  plain_ip :: "int option"
  plain_stack :: "Plain list"
  plain_text :: "Instruction list"

record PlainVM =
  plain_data :: "Plain list"
  plain_frames :: "PlainFrame list"
  plain_globals :: "(payload \<times> Plain) list"
  plain_syscall :: "(string \<times> Plain list) option"

text \<open>
  Writing a value with the arrays of the heap \<open>h\<close>. The encoder descends into the
  elements of an array; on an array that contains itself it would never return, which
  JavaScript ends with a RangeError. A chain of arrays nested more deeply than there
  are arrays in the heap passes through one array twice, so a budget of that many
  levels is exhausted exactly when an array contains itself.
\<close>

fun encode_value :: "nat \<Rightarrow> Value list list \<Rightarrow> Value \<Rightarrow> error + Plain"
  and encode_values :: "nat \<Rightarrow> Value list list \<Rightarrow> Value list \<Rightarrow> error + Plain list" where
  "encode_value n h (String s) = Inr (PlainString s)"
| "encode_value n h (Number x) = Inr (PlainNumber x)"
| "encode_value n h (Boolean b) = Inr (PlainBoolean b)"
| "encode_value n h (Function r f) = Inr (PlainFunction f)"
| "encode_value n h (Native s) = Inr (PlainNative s)"
| "encode_value n h (Syscall s) = Inr (PlainSyscall s)"
| "encode_value n h Null = Inr PlainNull"
| "encode_value n h Undefined = Inr PlainUndefined"
| "encode_value 0 h (Tuple a) = Inl RangeError"
| "encode_value (Suc n) h (Tuple a) =
     bind_err (array_at h a) (\<lambda>xs. bind_err (encode_values n h xs) (\<lambda>js. Inr (PlainTuple js)))"
| "encode_value 0 h (List a) = Inl RangeError"
| "encode_value (Suc n) h (List a) =
     bind_err (array_at h a) (\<lambda>xs. bind_err (encode_values n h xs) (\<lambda>js. Inr (PlainList js)))"
| "encode_values n h [] = Inr []"
| "encode_values n h (v # vs) =
     bind_err (encode_value n h v) (\<lambda>j. bind_err (encode_values n h vs) (\<lambda>js. Inr (j # js)))"

fun encode_frames :: "nat \<Rightarrow> Value list list \<Rightarrow> CallFrame list \<Rightarrow> error + PlainFrame list" where
  "encode_frames n h [] = Inr []"
| "encode_frames n h (f # fs) =
     bind_err (encode_values n h (stack f)) (\<lambda>st. bind_err (encode_frames n h fs) (\<lambda>gs.
       Inr (\<lparr>plain_ip = ip f, plain_stack = st, plain_text = ftext f\<rparr> # gs)))"

fun encode_globals :: "nat \<Rightarrow> Value list list \<Rightarrow> (payload \<times> Value) list \<Rightarrow> error + (payload \<times> Plain) list" where
  "encode_globals n h [] = Inr []"
| "encode_globals n h ((k, v) # g) =
     bind_err (encode_value n h v) (\<lambda>j. bind_err (encode_globals n h g) (\<lambda>js.
       Inr ((k, j) # js)))"

fun encode_syscall :: "nat \<Rightarrow> Value list list \<Rightarrow> Syscall option \<Rightarrow> error + (string \<times> Plain list) option" where
  "encode_syscall n h None = Inr None"
| "encode_syscall n h (Some sc) =
     bind_err (encode_values n h (sys_args sc)) (\<lambda>js. Inr (Some (sys_name sc, js)))"

text \<open>\<^verbatim>\<open>btoa(serialize(this))\<close>.\<close>

definition encode :: "VM \<Rightarrow> error + PlainVM" where
  "encode vm =
     bind_err (encode_values (length (heap vm)) (heap vm) (vdata vm)) (\<lambda>d.
     bind_err (encode_frames (length (heap vm)) (heap vm) (frames vm)) (\<lambda>fs.
     bind_err (encode_globals (length (heap vm)) (heap vm) (globals vm)) (\<lambda>g.
     bind_err (encode_syscall (length (heap vm)) (heap vm) (syscall vm)) (\<lambda>sc.
       Inr \<lparr>plain_data = d, plain_frames = fs, plain_globals = g, plain_syscall = sc\<rparr>))))"

text \<open>
  Reading a value back: every array of the text becomes a new array of the heap, and
  every Function a new object; \<open>r\<close> counts the Function objects made so far.
\<close>

fun decode_value :: "Plain \<Rightarrow> Value list list \<Rightarrow> nat \<Rightarrow> Value \<times> Value list list \<times> nat"
  and decode_values :: "Plain list \<Rightarrow> Value list list \<Rightarrow> nat \<Rightarrow> Value list \<times> Value list list \<times> nat" where
  "decode_value (PlainString s) h r = (String s, h, r)"
| "decode_value (PlainNumber x) h r = (Number x, h, r)"
| "decode_value (PlainBoolean b) h r = (Boolean b, h, r)"
| "decode_value (PlainFunction f) h r = (Function r f, h, Suc r)"
| "decode_value (PlainNative s) h r = (Native s, h, r)"
| "decode_value (PlainSyscall s) h r = (Syscall s, h, r)"
| "decode_value PlainNull h r = (Null, h, r)"
| "decode_value PlainUndefined h r = (Undefined, h, r)"
| "decode_value (PlainTuple js) h r =
     (case decode_values js h r of (vs, h1, r1) \<Rightarrow> (Tuple (length h1), h1 @ [vs], r1))"
| "decode_value (PlainList js) h r =
     (case decode_values js h r of (vs, h1, r1) \<Rightarrow> (List (length h1), h1 @ [vs], r1))"
| "decode_values [] h r = ([], h, r)"
| "decode_values (j # js) h r =
     (case decode_value j h r of (v, h1, r1) \<Rightarrow>
        case decode_values js h1 r1 of (vs, h2, r2) \<Rightarrow> (v # vs, h2, r2))"

fun decode_frames :: "PlainFrame list \<Rightarrow> Value list list \<Rightarrow> nat \<Rightarrow> CallFrame list \<times> Value list list \<times> nat" where
  "decode_frames [] h r = ([], h, r)"
| "decode_frames (f # fs) h r =
     (case decode_values (plain_stack f) h r of (st, h1, r1) \<Rightarrow>
        case decode_frames fs h1 r1 of (gs, h2, r2) \<Rightarrow>
          (\<lparr>ip = plain_ip f, stack = st, ftext = plain_text f, sprops = []\<rparr> # gs, h2, r2))"

fun decode_globals :: "(payload \<times> Plain) list \<Rightarrow> Value list list \<Rightarrow> nat \<Rightarrow> (payload \<times> Value) list \<times> Value list list \<times> nat" where
  "decode_globals [] h r = ([], h, r)"
| "decode_globals ((k, j) # g) h r =
     (case decode_value j h r of (v, h1, r1) \<Rightarrow>
        case decode_globals g h1 r1 of (g1, h2, r2) \<Rightarrow> ((k, v) # g1, h2, r2))"

fun decode_syscall :: "(string \<times> Plain list) option \<Rightarrow> Value list list \<Rightarrow> nat \<Rightarrow> Syscall option \<times> Value list list \<times> nat" where
  "decode_syscall None h r = (None, h, r)"
| "decode_syscall (Some (nm, js)) h r =
     (case decode_values js h r of (vs, h1, r1) \<Rightarrow> (Some \<lparr>sys_name = nm, sys_args = vs\<rparr>, h1, r1))"

text \<open>\<^verbatim>\<open>deserialize(VM, atob(image.state))\<close>.\<close>

definition decode :: "PlainVM \<Rightarrow> VM" where
  "decode p =
     (case decode_values (plain_data p) [] 0 of (d, h1, r1) \<Rightarrow>
      case decode_frames (plain_frames p) h1 r1 of (fs, h2, r2) \<Rightarrow>
      case decode_globals (plain_globals p) h2 r2 of (g, h3, r3) \<Rightarrow>
      case decode_syscall (plain_syscall p) h3 r3 of (sc, h4, r4) \<Rightarrow>
        \<lparr>vdata = d, frames = fs, globals = g, syscall = sc, heap = h4, hprops = []\<rparr>)"

section \<open>The compiler's scope model (compiler.ts)\<close>

text \<open>
  \<^verbatim>\<open>interface Local\<close> and the fields of \<^verbatim>\<open>class Compiler\<close> that a declaration
  reads or writes: the program under construction, the locals and the current depth.
\<close>

record Local =
  local_name :: string
  local_depth :: nat

record Compiler =
  program :: Program
  locals :: "Local list"
  depth :: nat

text \<open>\<^verbatim>\<open>emitText\<close> appends an instruction to the text and returns it.\<close>

definition emitText :: "Opcode \<Rightarrow> nat option \<Rightarrow> int option \<Rightarrow> Compiler \<Rightarrow> Instruction \<times> Compiler" where
  "emitText opcode line v c =
     (let instruction = \<lparr>itype = opcode, ivalue = v, lineNumber = line\<rparr>
      in (instruction, c\<lparr>program := (program c)\<lparr>ptext := ptext (program c) @ [instruction]\<rparr>\<rparr>))"

text \<open>
  \<^verbatim>\<open>declareVariable\<close>. At depth 0 the name goes to the constant pool and a DECLAREGL
  is emitted. At an inner depth
  \<^verbatim>\<open>this.locals.findIndex(local => local.name === name)\<close> searches all the locals;
  \<open>-1\<close> is the result when none has the name.
\<close>

definition findIndex :: "('a \<Rightarrow> bool) \<Rightarrow> 'a list \<Rightarrow> int" where
  "findIndex P xs = (case find P xs of None \<Rightarrow> - 1
     | Some _ \<Rightarrow> int (length (takeWhile (\<lambda>x. \<not> P x) xs)))"

definition declareVariable :: "string \<Rightarrow> nat option \<Rightarrow> Compiler \<Rightarrow> error + Compiler" where
  "declareVariable nm line c =
     (if depth c = 0 then
        (let c1 = c\<lparr>program := (program c)\<lparr>pdata := pdata (program c) @ [String nm]\<rparr>\<rparr>
         in Inr (snd (emitText DECLAREGL line (Some (int (length (pdata (program c1))) - 1)) c1)))
      else
        (let index = findIndex (\<lambda>l. local_name l = nm) (locals c)
         in if index = - 1
            then Inr (c\<lparr>locals := locals c @ [\<lparr>local_name = nm, local_depth = depth c\<rparr>]\<rparr>)
            else Inl (VariableAlreadyDeclaredInScope line)))"

text \<open>
  Modelled from the spec: the classes of the syntax tree, which belong to
  \<^verbatim>\<open>./parser\<close> and are not among the sources. Only the three kinds of node that open
  scopes and declare variables are needed; a node has the fields that
  \<^verbatim>\<open>compiler.ts\<close> reads and its source line number, and a literal carries the
  constant that its token denotes.
\<close>

datatype ASTNode =
    Literal Value "nat option"
  | VariableDeclaration string ASTNode "nat option"
  | Block "ASTNode list" "nat option"

text \<open>\<^verbatim>\<open>literal\<close>: the constant goes to the pool and a DATA with its index is emitted.\<close>

definition literal :: "Value \<Rightarrow> nat option \<Rightarrow> Compiler \<Rightarrow> Compiler" where
  "literal constant line c =
     (let c1 = c\<lparr>program := (program c)\<lparr>pdata := pdata (program c) @ [constant]\<rparr>\<rparr>
      in snd (emitText DATA line (Some (int (length (pdata (program c1))) - 1)) c1))"

text \<open>
  The loop at the end of \<^verbatim>\<open>block\<close>: from the last local backwards, every local whose
  depth exceeds the current depth is dropped and a POP is emitted for it.
\<close>

function exit_block :: "nat option \<Rightarrow> Compiler \<Rightarrow> Compiler" where
  "exit_block line c =
     (if locals c = [] then c
      else if local_depth (last (locals c)) \<le> depth c then c
      else exit_block line ((snd (emitText POP line None c))\<lparr>locals := butlast (locals c)\<rparr>))"
  by pat_completeness auto
termination
  by (relation "measure (\<lambda>(line, c). length (locals c))") (auto simp: emitText_def Let_def)

text \<open>
  \<^verbatim>\<open>codegen\<close> on these nodes: \<^verbatim>\<open>variableDeclaration\<close> compiles the initializer and
  declares the name; \<^verbatim>\<open>block\<close> increments the depth, compiles the children,
  decrements the depth and drops the locals of the block.
\<close>

fun codegen :: "ASTNode \<Rightarrow> Compiler \<Rightarrow> error + Compiler"
  and codegen_all :: "ASTNode list \<Rightarrow> Compiler \<Rightarrow> error + Compiler" where
  "codegen (Literal constant line) c = Inr (literal constant line c)"
| "codegen (VariableDeclaration nm v line) c =
     bind_err (codegen v c) (\<lambda>c1. declareVariable nm line c1)"
| "codegen (Block nodes line) c =
     bind_err (codegen_all nodes (c\<lparr>depth := depth c + 1\<rparr>))
       (\<lambda>c1. Inr (exit_block line (c1\<lparr>depth := depth c1 - 1\<rparr>)))"
| "codegen_all [] c = Inr c"
| "codegen_all (node # nodes) c = bind_err (codegen node c) (\<lambda>c1. codegen_all nodes c1)"

text \<open>\<^verbatim>\<open>new Compiler(ast).run()\<close>: no locals, depth 0, an empty program.\<close>

definition compile :: "ASTNode list \<Rightarrow> error + Program" where
  "compile ast =
     bind_err (codegen_all ast \<lparr>program = \<lparr>ptext = [], pdata = []\<rparr>, locals = [], depth = 0\<rparr>)
       (\<lambda>c. Inr (program c))"

section \<open>Reference notions and example machines\<close>

text \<open>A host without natives and without syscalls.\<close>

definition no_host :: Env where
  "no_host = \<lparr>natives = [], syscalls = []\<rparr>"

text \<open>
  JavaScript's strict equality of two values' tags and payloads, case by case:
  primitives by value, arrays and Function objects by reference.
\<close>

definition strict_equal :: "Value \<Rightarrow> Value \<Rightarrow> bool" where
  "strict_equal x y = (case (x, y) of
       (String s, String t) \<Rightarrow> s = t
     | (Number m, Number n) \<Rightarrow> m = n
     | (Boolean p, Boolean q) \<Rightarrow> p = q
     | (Function r f, Function r' f') \<Rightarrow> r = r'
     | (Native s, Native t) \<Rightarrow> s = t
     | (Syscall s, Syscall t) \<Rightarrow> s = t
     | (Tuple a, Tuple b) \<Rightarrow> a = b
     | (List a, List b) \<Rightarrow> a = b
     | (Null, Null) \<Rightarrow> True
     | _ \<Rightarrow> False)"

text \<open>
  The equality that the words \<^emph>\<open>structural on tag and payload, element-wise for Tuples
  and Lists\<close> describe: the same tag, equal contents, and for two arrays elements that
  are pairwise equal in this sense, whatever their addresses.
\<close>

inductive structurally_equal :: "Value list list \<Rightarrow> Value \<Rightarrow> Value \<Rightarrow> bool" for h where
  "structurally_equal h (String s) (String s)"
| "structurally_equal h (Number n) (Number n)"
| "structurally_equal h (Boolean p) (Boolean p)"
| "structurally_equal h (Function r f) (Function r' f)"
| "structurally_equal h (Native s) (Native s)"
| "structurally_equal h (Syscall s) (Syscall s)"
| "structurally_equal h Null Null"
| "array_at h a = Inr xs \<Longrightarrow> array_at h b = Inr ys \<Longrightarrow> list_all2 (structurally_equal h) xs ys
     \<Longrightarrow> structurally_equal h (Tuple a) (Tuple b)"
| "array_at h a = Inr xs \<Longrightarrow> array_at h b = Inr ys \<Longrightarrow> list_all2 (structurally_equal h) xs ys
     \<Longrightarrow> structurally_equal h (List a) (List b)"

text \<open>An instruction without line number, for the example programs.\<close>

definition ins :: "Opcode \<Rightarrow> int option \<Rightarrow> Instruction" where
  "ins c v = \<lparr>itype = c, ivalue = v, lineNumber = None\<rparr>"

text \<open>
  The source \<^verbatim>\<open>[1] == [1]\<close>, the VM it reaches after four steps, with the two lists
  on the stack, and a VM with a String and a Number on the stack.
\<close>

definition two_lists_program :: Program where
  "two_lists_program = \<lparr>ptext = [ins DATA (Some 0), ins MAKE_LIST (Some 1),
     ins DATA (Some 0), ins MAKE_LIST (Some 1), ins EQ None, ins NOP None],
     pdata = [Number 1]\<rparr>"

definition two_lists_vm :: VM where
  "two_lists_vm = \<lparr>vdata = [Number 1],
     frames = [\<lparr>ip = Some 4, stack = [List 0, List 1], ftext = ptext two_lists_program, sprops = []\<rparr>],
     globals = [], syscall = None, heap = [[Number 1], [Number 1]], hprops = []\<rparr>"

definition mixed_vm :: VM where
  "mixed_vm = \<lparr>vdata = [], frames = [\<lparr>ip = Some 0, stack = [String ''1'', Number 1], ftext = [], sprops = []\<rparr>],
     globals = [], syscall = None, heap = [], hprops = []\<rparr>"

text \<open>
  The source \<^verbatim>\<open>[1, 2, 3][3]\<close> and the VMs it passes through after the list has been
  built.
\<close>

definition subscript_program :: Program where
  "subscript_program = \<lparr>ptext = [ins DATA (Some 0), ins DATA (Some 1), ins DATA (Some 2),
     ins MAKE_LIST (Some 3), ins DATA (Some 3), ins SUBSCRIPT None, ins NOP None],
     pdata = [Number 1, Number 2, Number 3, Number 3]\<rparr>"

text \<open>The same list with the key \<open>-1\<close>, the source \<^verbatim>\<open>[1, 2, 3][-1]\<close>.\<close>

definition negative_subscript_program :: Program where
  "negative_subscript_program = \<lparr>ptext = [ins DATA (Some 0), ins DATA (Some 1), ins DATA (Some 2),
     ins MAKE_LIST (Some 3), ins DATA (Some 3), ins NEG None, ins SUBSCRIPT None, ins NOP None],
     pdata = [Number 1, Number 2, Number 3, Number 1]\<rparr>"

definition subscript_vm :: "Value list \<Rightarrow> int \<Rightarrow> VM" where
  "subscript_vm st i = \<lparr>vdata = pdata subscript_program,
     frames = [\<lparr>ip = Some i, stack = st, ftext = ptext subscript_program, sprops = []\<rparr>],
     globals = [], syscall = None, heap = [[Number 1, Number 2, Number 3]], hprops = []\<rparr>"

text \<open>A top-level \<^verbatim>\<open>return;\<close>.\<close>

definition ret_program :: Program where
  "ret_program = \<lparr>ptext = [ins RET (Some 0)], pdata = []\<rparr>"

text \<open>
  The source \<^verbatim>\<open>{ let x = 1; { let x = 2; } }\<close> with its line numbers, the same source
  with the two declarations in sibling blocks, and the state of the compiler when it
  reaches the inner declaration of the first.
\<close>

definition shadowing_source :: "ASTNode list" where
  "shadowing_source =
     [Block [VariableDeclaration ''x'' (Literal (Number 1) (Some 1)) (Some 1),
             Block [VariableDeclaration ''x'' (Literal (Number 2) (Some 2)) (Some 2)] (Some 2)]
        (Some 1)]"

definition sibling_source :: "ASTNode list" where
  "sibling_source =
     [Block [Block [VariableDeclaration ''x'' (Literal (Number 1) (Some 1)) (Some 1)] (Some 1),
             Block [VariableDeclaration ''x'' (Literal (Number 2) (Some 2)) (Some 2)] (Some 2)]
        (Some 1)]"

definition shadowing_compiler :: Compiler where
  "shadowing_compiler =
     \<lparr>program = \<lparr>ptext = [\<lparr>itype = DATA, ivalue = Some 0, lineNumber = Some 1\<rparr>,
                           \<lparr>itype = DATA, ivalue = Some 1, lineNumber = Some 2\<rparr>],
                  pdata = [Number 1, Number 2]\<rparr>,
      locals = [\<lparr>local_name = ''x'', local_depth = 1\<rparr>], depth = 2\<rparr>"

text \<open>
  A VM about to append the list at address 1 to the list at address 0, which a second
  stack slot refers to as well.
\<close>

definition alias_vm :: VM where
  "alias_vm = \<lparr>vdata = [],
     frames = [\<lparr>ip = Some 0, stack = [List 0, List 0, List 1], ftext = [ins ADD (Some 1)], sprops = []\<rparr>],
     globals = [], syscall = None, heap = [[Number 1], [Number 2]], hprops = []\<rparr>"

text \<open>A VM about to call a function of one parameter with the argument 5.\<close>

definition unary_function :: Function where
  "unary_function = \<lparr>name = ''f'', args = [''n''], body = [ins LOAD (Some 1), ins RET (Some 1)]\<rparr>"

definition call_vm :: VM where
  "call_vm = \<lparr>vdata = [],
     frames = [\<lparr>ip = Some 0, stack = [Null, Function 0 unary_function, Number 5],
                ftext = [ins CALL (Some 1), ins POP None], sprops = []\<rparr>],
     globals = [], syscall = None, heap = [], hprops = []\<rparr>"

text \<open>
  A host with the syscall \<open>input\<close>; the source \<^verbatim>\<open>input()\<close> compiled without and
  with the POP that follows a call in an expression statement; and the VMs around the
  trap: before the CALL, after it, and resumed with the string \<open>hello\<close>.
\<close>

definition input_host :: Env where
  "input_host = \<lparr>natives = [],
     syscalls = [(''input'', \<lparr>syscallId = ''input'', preprocessor = (\<lambda>as line. Inr as)\<rparr>)]\<rparr>"


definition trap_program :: Program where
  "trap_program = \<lparr>ptext = [ins LOADGL (Some 0), ins CALL (Some 0), ins POP None],
     pdata = [String ''input'']\<rparr>"

definition trapped_vm :: "CallFrame list \<Rightarrow> VM" where
  "trapped_vm fs = \<lparr>vdata = [String ''input''], frames = fs,
     globals = [(PString ''input'', Syscall ''input'')],
     syscall = Some \<lparr>sys_name = ''input'', sys_args = []\<rparr>, heap = [], hprops = []\<rparr>"

definition pending_frame :: CallFrame where
  "pending_frame = \<lparr>ip = Some 2, stack = [], ftext = ptext trap_program, sprops = []\<rparr>"

text \<open>
  A native function of \<open>n\<close> parameters that returns \<open>V\<close> at once and changes nothing:
  the reference for a call that returns inline.
\<close>

definition returning :: "int \<Rightarrow> Value \<Rightarrow> NativeInfo" where
  "returning n V = \<lparr>nargs = n, nfunction = (\<lambda>h line as. Inr (V, h))\<rparr>"

definition before_trap_vm :: VM where
  "before_trap_vm = \<lparr>vdata = [String ''input''],
     frames = [\<lparr>ip = Some 1, stack = [Syscall ''input''], ftext = ptext trap_program, sprops = []\<rparr>],
     globals = [(PString ''input'', Syscall ''input'')], syscall = None, heap = [], hprops = []\<rparr>"

definition resumed_vm :: VM where
  "resumed_vm = \<lparr>vdata = [String ''input''],
     frames = [\<lparr>ip = Some 2, stack = [String ''hello''], ftext = ptext trap_program, sprops = []\<rparr>],
     globals = [(PString ''input'', Syscall ''input'')], syscall = None, heap = [], hprops = []\<rparr>"

text \<open>
  Three of the end-to-end scenarios, compiled by hand as \<^verbatim>\<open>compiler.ts\<close> compiles
  them, and a host whose only syscall is the generic \<open>syscall\<close>.

  \<^verbatim>\<open>let a = 1 + 2; syscall("result", a);\<close>
\<close>

definition generic_host :: Env where
  "generic_host = \<lparr>natives = [],
     syscalls = [(''syscall'', \<lparr>syscallId = ''syscall'', preprocessor = (\<lambda>as line. Inr as)\<rparr>)]\<rparr>"

definition sum_program :: Program where
  "sum_program = \<lparr>ptext = [ins DATA (Some 0), ins DATA (Some 1), ins ADD None,
       ins DECLAREGL (Some 2), ins LOADGL (Some 3), ins DATA (Some 4), ins LOADGL (Some 5),
       ins CALL (Some 2), ins POP None],
     pdata = [Number 1, Number 2, String ''a'', String ''syscall'', String ''result'',
       String ''a'']\<rparr>"

text \<open>\<^verbatim>\<open>let xs = [1,2,3]; xs[1] = 9; syscall("r", xs);\<close>\<close>

definition list_store_program :: Program where
  "list_store_program = \<lparr>ptext = [ins DATA (Some 0), ins DATA (Some 1), ins DATA (Some 2),
       ins MAKE_LIST (Some 3), ins DECLAREGL (Some 3),
       ins DATA (Some 4), ins LOADGL (Some 5), ins DATA (Some 6), ins STORE_SUBSCRIPT None,
       ins POP None,
       ins LOADGL (Some 7), ins DATA (Some 8), ins LOADGL (Some 9), ins CALL (Some 2),
       ins POP None],
     pdata = [Number 1, Number 2, Number 3, String ''xs'', Number 9, String ''xs'', Number 1,
       String ''syscall'', String ''r'', String ''xs'']\<rparr>"

text \<open>
  \<^verbatim>\<open>func fact(n){ if(n<=1){return 1;} return n*fact(n-1); } syscall("r", fact(5));\<close>
\<close>

definition fact_body :: "Instruction list" where
  "fact_body = [ins LOAD (Some 1), ins DATA (Some 1), ins LTE None, ins JUMPF (Some 6),
     ins DATA (Some 2), ins RET (Some 1),
     ins LOAD (Some 1), ins LOAD (Some 0), ins LOAD (Some 1), ins DATA (Some 3), ins SUB None,
     ins CALL (Some 1), ins MUL None, ins RET (Some 1), ins POP None, ins RET (Some 0)]"

definition fact_program :: Program where
  "fact_program = \<lparr>ptext = [ins DATA (Some 0), ins DECLAREGL (Some 4),
       ins LOADGL (Some 5), ins DATA (Some 6), ins LOADGL (Some 7), ins DATA (Some 8),
       ins CALL (Some 1), ins CALL (Some 2), ins POP None],
     pdata = [Function 0 \<lparr>name = ''fact'', args = [''n''], body = fact_body\<rparr>,
       Number 1, Number 1, Number 1, String ''fact'', String ''syscall'', String ''r'',
       String ''fact'', Number 5]\<rparr>"

text \<open>
  The input protocol, \<^verbatim>\<open>let a = input(); syscall("dummy", a);\<close>, on a host with the
  syscalls \<open>input\<close> and \<open>syscall\<close>.
\<close>

definition protocol_host :: Env where
  "protocol_host = \<lparr>natives = [],
     syscalls = [(''input'', \<lparr>syscallId = ''input'', preprocessor = (\<lambda>as line. Inr as)\<rparr>),
                 (''syscall'', \<lparr>syscallId = ''syscall'', preprocessor = (\<lambda>as line. Inr as)\<rparr>)]\<rparr>"

definition resume_program :: Program where
  "resume_program = \<lparr>ptext = [ins LOADGL (Some 0), ins CALL (Some 0), ins DECLAREGL (Some 1),
       ins LOADGL (Some 2), ins DATA (Some 3), ins LOADGL (Some 4), ins CALL (Some 2),
       ins POP None],
     pdata = [String ''input'', String ''a'', String ''syscall'', String ''dummy'',
       String ''a'']\<rparr>"


text \<open>
  \<^verbatim>\<open>let a = [1]; let b = a; input(); b += [2]; syscall("r", a);\<close>, where \<open>a\<close> and
  \<open>b\<close> name one list, and a host on which \<open>input\<close> is a native function that
  returns the string \<open>hello\<close> at once.
\<close>

definition sharing_program :: Program where
  "sharing_program = \<lparr>ptext = [ins DATA (Some 0), ins MAKE_LIST (Some 1), ins DECLAREGL (Some 1),
       ins LOADGL (Some 2), ins DECLAREGL (Some 3),
       ins LOADGL (Some 4), ins CALL (Some 0), ins POP None,
       ins LOADGL (Some 5), ins DATA (Some 6), ins MAKE_LIST (Some 1), ins ADD (Some 1),
       ins SETGL (Some 7), ins POP None,
       ins LOADGL (Some 8), ins DATA (Some 9), ins LOADGL (Some 10), ins CALL (Some 2),
       ins POP None],
     pdata = [Number 1, String ''a'', String ''a'', String ''b'', String ''input'', String ''b'',
       Number 2, String ''b'', String ''syscall'', String ''r'', String ''a'']\<rparr>"

definition inline_host :: Env where
  "inline_host = \<lparr>natives = [(''input'', returning 0 (String ''hello''))],
     syscalls = [(''syscall'', \<lparr>syscallId = ''syscall'', preprocessor = (\<lambda>as line. Inr as)\<rparr>)]\<rparr>"
section \<open>Basic facts about the embedding\<close>

lemma bind_err_Inl [simp]: "bind_err (Inl e) f = Inl e"
  by (simp add: bind_err_def)

lemma bind_err_Inr [simp]: "bind_err (Inr x) f = f x"
  by (simp add: bind_err_def)

lemma bind_err_eq_Inr: "(bind_err m f = Inr y) = (\<exists>x. m = Inr x \<and> f x = Inr y)"
  by (cases m) simp_all

lemma pop_snoc [simp]: "pop (st @ [a]) = Inr (a, st)"
  by (simp add: pop_def)

lemma pop_Nil [simp]: "pop [] = Inl CompilerBug"
  by (simp add: pop_def)

lemma pop2_snoc2 [simp]: "pop2 (st @ [b, a]) = Inr (a, b, st)"
  by (simp add: pop2_def pop_def butlast_append)

lemma pop_n_append: "pop_n (length as) (st @ as) acc = Inr (as @ acc, st)"
proof (induction as arbitrary: acc rule: rev_induct)
  case Nil
  show ?case by simp
next
  case (snoc x xs)
  have "pop_n (length (xs @ [x])) (st @ xs @ [x]) acc
        = bind_err (pop ((st @ xs) @ [x])) (\<lambda>(y, st1). pop_n (length xs) st1 (y # acc))"
    by simp
  also have "\<dots> = pop_n (length xs) (st @ xs) (x # acc)"
    by (simp only: pop_snoc bind_err_Inr prod.case)
  also have "\<dots> = Inr (xs @ x # acc, st)" by (rule snoc.IH)
  finally show ?case by simp
qed

lemma cur_stack_set_stack [simp]: "cur_stack (set_stack st vm) = st"
  by (simp add: cur_stack_def set_stack_def)


lemma execute_EQ:
  assumes "frames vm \<noteq> []" and "cur_stack vm = st @ [b, a]"
    and "a \<noteq> Undefined" and "b \<noteq> Undefined"
  shows "execute env \<lparr>itype = EQ, ivalue = v, lineNumber = l\<rparr> vm
      = Inr (set_stack (st @ [Boolean (vtype a = vtype b \<and> payload_of b = payload_of a)]) vm)"
  using assms by (simp add: execute_def handled_def dispatch_def exec_EQ_def js_eq_def)

lemma execute_NEQ:
  assumes "frames vm \<noteq> []" and "cur_stack vm = st @ [b, a]"
    and "a \<noteq> Undefined" and "b \<noteq> Undefined"
  shows "execute env \<lparr>itype = NEQ, ivalue = v, lineNumber = l\<rparr> vm
      = Inr (set_stack (st @ [Boolean (\<not> (vtype a = vtype b \<and> payload_of b = payload_of a))]) vm)"
  using assms by (simp add: execute_def handled_def dispatch_def exec_NEQ_def js_neq_def)

lemma strict_equal_iff:
  "a \<noteq> Undefined \<Longrightarrow> b \<noteq> Undefined \<Longrightarrow>
   strict_equal a b = (vtype a = vtype b \<and> payload_of b = payload_of a)"
  by (cases a; cases b) (auto simp: strict_equal_def)

lemma execute_SUBSCRIPT:
  assumes "frames vm \<noteq> []" and "cur_stack vm = st @ [c, Number k]"
    and "c = Tuple a \<or> c = List a" and "array_at (heap vm) a = Inr xs"
  shows "execute env \<lparr>itype = SUBSCRIPT, ivalue = v, lineNumber = l\<rparr> vm
      = (if rat_of_nat (length xs) < k then Inl (IndexError l)
         else Inr (set_stack (st @ [array_get vm a xs k]) vm))"
  using assms
  by (auto simp: execute_def handled_def dispatch_def exec_SUBSCRIPT_def container_address_def
      need_number_def)

lemma syscall_set_stack [simp]: "syscall (set_stack st vm) = syscall vm"
  by (simp add: set_stack_def)

lemma syscall_set_ip [simp]: "syscall (set_ip i vm) = syscall vm"
  by (simp add: set_ip_def)

lemma frames_set_stack: "frames (set_stack st vm) = butlast (frames vm) @ [(last (frames vm))\<lparr>stack := st\<rparr>]"
  by (simp add: set_stack_def)

lemma exec_num2_syscall: "exec_num2 f l vm = Inr vmx \<Longrightarrow> syscall vmx = syscall vm"
  by (auto simp: exec_num2_def bind_err_eq_Inr)

lemma exec_num1_syscall: "exec_num1 f l vm = Inr vmx \<Longrightarrow> syscall vmx = syscall vm"
  by (auto simp: exec_num1_def bind_err_eq_Inr)

lemma exec_ADD_syscall: "exec_ADD v l vm = Inr vmx \<Longrightarrow> syscall vmx = syscall vm"
  by (auto simp: exec_ADD_def bind_err_eq_Inr split: if_splits Value.splits)

lemma exec_SUB_syscall: "exec_SUB l vm = Inr vmx \<Longrightarrow> syscall vmx = syscall vm"
  by (auto simp: exec_SUB_def bind_err_eq_Inr split: if_splits Value.splits)

lemma exec_bool_syscall:
  "exec_OR l vm = Inr vmx \<Longrightarrow> syscall vmx = syscall vm"
  "exec_AND l vm = Inr vmx \<Longrightarrow> syscall vmx = syscall vm"
  "exec_NOT l vm = Inr vmx \<Longrightarrow> syscall vmx = syscall vm"
  by (auto simp: exec_OR_def exec_AND_def exec_NOT_def bind_err_eq_Inr)

lemma exec_stack_syscall:
  "exec_PUSH v vm = Inr vmx \<Longrightarrow> syscall vmx = syscall vm"
  "exec_POP vm = Inr vmx \<Longrightarrow> syscall vmx = syscall vm"
  "exec_COPY vm = Inr vmx \<Longrightarrow> syscall vmx = syscall vm"
  "exec_LOAD v vm = Inr vmx \<Longrightarrow> syscall vmx = syscall vm"
  "exec_STORE v vm = Inr vmx \<Longrightarrow> syscall vmx = syscall vm"
  "exec_EQ vm = Inr vmx \<Longrightarrow> syscall vmx = syscall vm"
  "exec_NEQ vm = Inr vmx \<Longrightarrow> syscall vmx = syscall vm"
  by (auto simp: exec_PUSH_def exec_POP_def exec_COPY_def exec_LOAD_def exec_STORE_def
      exec_EQ_def exec_NEQ_def bind_err_eq_Inr)

lemma exec_jump_syscall:
  "exec_JUMP v vm = Inr vmx \<Longrightarrow> syscall vmx = syscall vm"
  "exec_JUMPF v vm = Inr vmx \<Longrightarrow> syscall vmx = syscall vm"
  "exec_JUMPT v vm = Inr vmx \<Longrightarrow> syscall vmx = syscall vm"
  by (auto simp: exec_JUMP_def exec_JUMPF_def exec_JUMPT_def bind_err_eq_Inr
      split: option.splits if_splits)

lemma exec_global_syscall:
  "exec_DECLAREGL v l vm = Inr vmx \<Longrightarrow> syscall vmx = syscall vm"
  "exec_LOADGL v l vm = Inr vmx \<Longrightarrow> syscall vmx = syscall vm"
  "exec_SETGL v l vm = Inr vmx \<Longrightarrow> syscall vmx = syscall vm"
  by (auto simp: exec_DECLAREGL_def exec_LOADGL_def exec_SETGL_def bind_err_eq_Inr
      split: option.splits if_splits)

lemma syscall_array_put [simp]: "syscall (array_put vm a xs q x) = syscall vm"
  by (simp add: array_put_def split: option.splits)

lemma exec_aggregate_syscall:
  "exec_MAKE mk v vm = Inr vmx \<Longrightarrow> syscall vmx = syscall vm"
  "exec_SUBSCRIPT l vm = Inr vmx \<Longrightarrow> syscall vmx = syscall vm"
  "exec_STORE_SUBSCRIPT l vm = Inr vmx \<Longrightarrow> syscall vmx = syscall vm"
  by (auto simp: exec_MAKE_def exec_SUBSCRIPT_def exec_STORE_SUBSCRIPT_def bind_err_eq_Inr
      split: if_splits)

lemma exec_RET_syscall: "exec_RET v vm = Inr vmx \<Longrightarrow> syscall vmx = syscall vm"
  by (auto simp: exec_RET_def bind_err_eq_Inr Let_def split: if_splits)

lemma dispatch_syscall:
  assumes "dispatch env i vm = Inr vmx" and "itype i \<noteq> CALL"
  shows "syscall vmx = syscall vm"
  using assms
  by (cases "itype i")
     (auto simp: dispatch_def Let_def exec_MUL_def exec_DIV_def exec_MOD_def exec_LT_def
        exec_GT_def exec_LTE_def exec_GTE_def exec_NEG_def exec_INC_def exec_DEC_def
      dest: exec_num2_syscall exec_num1_syscall exec_ADD_syscall exec_SUB_syscall
        exec_bool_syscall exec_stack_syscall exec_jump_syscall exec_global_syscall
        exec_aggregate_syscall exec_RET_syscall)

lemma call_native_syscall:
  "call_native env v l nm as vm = Inr vmx \<Longrightarrow> syscall vmx = syscall vm"
  by (auto simp: call_native_def bind_err_eq_Inr split: option.splits if_splits)

lemma call_function_syscall:
  "call_function v l func f as vm = Inr vmx \<Longrightarrow> syscall vmx = syscall vm"
  by (auto simp: call_function_def split: if_splits)

lemma call_syscall_frames:
  assumes "call_syscall env l nm as vm = Inr vmx"
  shows "\<exists>sc. vmx = vm\<lparr>syscall := Some sc\<rparr>"
  using assms unfolding call_syscall_def
  by (auto simp: bind_err_eq_Inr split: option.splits if_splits list.splits Value.splits)

lemma exec_CALL_syscall:
  assumes "exec_CALL env v l vm = Inr vmx"
  shows "syscall vmx = syscall vm \<or> (\<exists>st. frames vmx = frames (set_stack st vm))"
proof -
  from assms obtain as st1 func st2 where
    r: "(case func of
         Undefined \<Rightarrow> Inl TypeError
       | Native nm \<Rightarrow> call_native env v l nm as (set_stack st2 vm)
       | Function r f \<Rightarrow> call_function v l func f as (set_stack st2 vm)
       | Syscall nm \<Rightarrow> call_syscall env l nm as (set_stack st2 vm)
       | _ \<Rightarrow> Inl (InvalidType l)) = Inr vmx"
    by (auto simp: exec_CALL_def bind_err_eq_Inr)
  show ?thesis
  proof (cases func)
    case (Native nm)
    with r show ?thesis by (auto dest: call_native_syscall)
  next
    case (Function r f)
    with r show ?thesis by (auto dest: call_function_syscall)
  next
    case (Syscall nm)
    with r have "call_syscall env l nm as (set_stack st2 vm) = Inr vmx" by simp
    then obtain sc where "vmx = (set_stack st2 vm)\<lparr>syscall := Some sc\<rparr>"
      using call_syscall_frames by blast
    then have "frames vmx = frames (set_stack st2 vm)" by simp
    then show ?thesis by blast
  qed (use r in auto)
qed


lemma execute_sets_syscall:
  assumes "execute env i vm = Inr vmx" and "syscall vmx \<noteq> syscall vm"
  shows "itype i = CALL \<and> frames vm \<noteq> [] \<and> (\<exists>st. frames vmx = frames (set_stack st vm))"
proof -
  from assms have d: "dispatch env i vm = Inr vmx" and fr: "frames vm \<noteq> []"
    by (auto simp: execute_def split: if_splits)
  from d assms(2) have c: "itype i = CALL"
    using dispatch_syscall by blast
  with d have "exec_CALL env (ivalue i) (lineNumber i) vm = Inr vmx"
    by (simp add: dispatch_def Let_def)
  with assms(2) have "\<exists>st. frames vmx = frames (set_stack st vm)"
    using exec_CALL_syscall by blast
  with c fr show ?thesis by simp
qed

lemma syscall_fall_off [simp]: "syscall (fall_off vm) = syscall vm"
  by (simp add: fall_off_def split: option.splits)

lemma trap_iteration:
  assumes "iteration env vm0 = Inr vm1" and "syscall vm1 \<noteq> syscall vm0"
  shows "\<exists>i st. frames vm0 \<noteq> []
     \<and> ip (last (frames vm0)) = Some (int i)
     \<and> i < length (ftext (last (frames vm0)))
     \<and> itype (ftext (last (frames vm0)) ! i) = CALL
     \<and> frames vm1 = (if i + 1 < length (ftext (last (frames vm0)))
          then butlast (frames vm0) @
               [(last (frames vm0))\<lparr>ip := Some (int i + 1), stack := st\<rparr>]
          else butlast (frames vm0))"
proof -
  from assms(1) obtain instr vmx vm2 where
    f: "fetch vm0 = Inr instr" and e: "execute env instr vm0 = Inr vmx"
    and a: "advance vmx = Inr vm2" and v1: "vm1 = fall_off vm2"
    by (auto simp: iteration_def bind_err_eq_Inr)
  from f obtain k where fr: "frames vm0 \<noteq> []" and k: "ip (last (frames vm0)) = Some k"
    and k0: "0 \<le> k" and kl: "k < int (length (ftext (last (frames vm0))))"
    and instr: "instr = ftext (last (frames vm0)) ! nat k"
    by (auto simp: fetch_def split: if_splits option.splits)
  from a have vm2: "vm2 = set_ip (map_option (\<lambda>i. i + 1) (ip (last (frames vmx)))) vmx"
    by (auto simp: advance_def split: if_splits)
  with v1 assms(2) have "syscall vmx \<noteq> syscall vm0" by simp
  with e obtain st where c: "itype instr = CALL" and fx: "frames vmx = frames (set_stack st vm0)"
    using execute_sets_syscall by blast
  define f0 where "f0 = last (frames vm0)"
  have fx': "frames vmx = butlast (frames vm0) @ [f0\<lparr>stack := st\<rparr>]"
    using fx by (simp add: frames_set_stack f0_def)
  have f2: "frames vm2 = butlast (frames vm0) @ [f0\<lparr>stack := st, ip := Some (k + 1)\<rparr>]"
    using vm2 fx' k by (simp add: set_ip_def f0_def)
  have "frames vm1 = (if nat k + 1 < length (ftext f0)
          then butlast (frames vm0) @ [f0\<lparr>ip := Some (int (nat k) + 1), stack := st\<rparr>]
          else butlast (frames vm0))"
    using v1 f2 k0 by (auto simp: fall_off_def)
  moreover have "ip f0 = Some (int (nat k))" "nat k < length (ftext f0)"
    "itype (ftext f0 ! nat k) = CALL"
    using k k0 kl c instr by (simp_all add: f0_def)
  ultimately show ?thesis using fr unfolding f0_def by blast
qed

lemma run_loop_stopped:
  "frames vm = [] \<or> syscall vm \<noteq> None \<Longrightarrow> run_loop env n vm = Inr vm"
  by (cases n) auto

lemma run_loop_trap:
  assumes "run_loop env n vm = Inr vm'" and "syscall vm = None" and "syscall vm' \<noteq> None"
  shows "\<exists>k vm0. k < n \<and> run_loop env k vm = Inr vm0 \<and> syscall vm0 = None
     \<and> frames vm0 \<noteq> [] \<and> iteration env vm0 = Inr vm'"
  using assms
proof (induction n arbitrary: vm)
  case 0
  then show ?case by simp
next
  case (Suc n)
  from Suc.prems have go: "frames vm \<noteq> []"
    by (auto split: if_splits)
  with Suc.prems obtain vm1 where it: "iteration env vm = Inr vm1"
    and r: "(if frames vm1 = [] then Inr vm1 else run_loop env n vm1) = Inr vm'"
    by (auto simp: bind_err_eq_Inr)
  show ?case
  proof (cases "frames vm1 = [] \<or> syscall vm1 \<noteq> None")
    case True
    with r have "vm' = vm1"
      using run_loop_stopped [of vm1 env n] by (auto split: if_splits)
    with it go Suc.prems(2) have "0 < Suc n \<and> run_loop env 0 vm = Inr vm \<and> syscall vm = None
        \<and> frames vm \<noteq> [] \<and> iteration env vm = Inr vm'"
      by simp
    then show ?thesis by blast
  next
    case False
    with r have "run_loop env n vm1 = Inr vm'" by simp
    with False Suc.IH [of vm1] Suc.prems(3) obtain k vm0 where
      k: "k < n" "run_loop env k vm1 = Inr vm0" "syscall vm0 = None" "frames vm0 \<noteq> []"
         "iteration env vm0 = Inr vm'"
      by auto
    have "run_loop env (Suc k) vm = Inr vm0"
      using go Suc.prems(2) it False k(2) by simp
    with k show ?thesis by (meson Suc_less_eq)
  qed
qed

lemma run_unbounded_finite:
  assumes "run_unbounded env vm = Some r"
  shows "\<exists>n. run_loop env n vm = r"
proof (rule run_unbounded.raw_induct [where P = "\<lambda>env vm r. \<exists>n. run_loop env n vm = r", OF _ assms])
  fix f :: "Env \<Rightarrow> VM \<Rightarrow> (error + VM) option" and env vm r
  assume IH: "\<And>env vm r. f env vm = Some r \<Longrightarrow> \<exists>n. run_loop env n vm = r"
    and unfolded: "(if frames vm \<noteq> [] \<and> syscall vm = None
      then (case iteration env vm of Inl e \<Rightarrow> Some (Inl e)
            | Inr vm1 \<Rightarrow> if frames vm1 = [] then Some (Inr vm1) else f env vm1)
      else Some (Inr vm)) = Some r"
  show "\<exists>n. run_loop env n vm = r"
  proof (cases "frames vm \<noteq> [] \<and> syscall vm = None")
    case False
    with unfolded have "run_loop env 0 vm = r" by auto
    then show ?thesis ..
  next
    case True
    show ?thesis
    proof (cases "iteration env vm")
      case (Inl e)
      with True unfolded have "r = Inl e" by simp
      with True Inl have "run_loop env (Suc 0) vm = r" by simp
      then show ?thesis ..
    next
      case (Inr vm1)
      show ?thesis
      proof (cases "frames vm1 = []")
        case empty: True
        with True Inr unfolded have "r = Inr vm1" by simp
        with True Inr empty have "run_loop env (Suc 0) vm = r" by simp
        then show ?thesis ..
      next
        case nonempty: False
        with True Inr unfolded have "f env vm1 = Some r" by simp
        then obtain n where "run_loop env n vm1 = r" using IH by blast
        with True Inr nonempty have "run_loop env (Suc n) vm = r" by simp
        then show ?thesis ..
      qed
    qed
  qed
qed

lemma execute_CALL_syscall:
  assumes "frames vm \<noteq> []" and "cur_stack vm = st @ Syscall nm # as"
    and "execute env \<lparr>itype = CALL, ivalue = Some (int (length as)), lineNumber = l\<rparr> vm = Inr vmx"
  shows "\<exists>sc. vmx = (set_stack st vm)\<lparr>syscall := Some sc\<rparr>"
proof -
  have "pop_n (length as) ((st @ [Syscall nm]) @ as) [] = Inr (as @ [], st @ [Syscall nm])"
    by (rule pop_n_append)
  with assms have "call_syscall env l nm as (set_stack st vm) = Inr vmx"
    by (simp add: execute_def handled_def dispatch_def exec_CALL_def loop_count_def)
  then show ?thesis by (rule call_syscall_frames)
qed

lemma execute_CALL_native:
  assumes "frames vm \<noteq> []" and "cur_stack vm = st @ Native nm # as"
    and "map_of (natives env) nm = Some (returning (int (length as)) V)"
  shows "execute env \<lparr>itype = CALL, ivalue = Some (int (length as)), lineNumber = l\<rparr> vm
     = Inr (set_stack (st @ [V]) vm)"
proof -
  have "pop_n (length as) ((st @ [Native nm]) @ as) [] = Inr (as @ [], st @ [Native nm])"
    by (rule pop_n_append)
  with assms show ?thesis
    by (simp add: execute_def handled_def dispatch_def exec_CALL_def loop_count_def
        call_native_def returning_def set_stack_def cur_stack_def)
qed

lemma fetch_set_stack: "frames vm \<noteq> [] \<Longrightarrow> fetch (set_stack s vm) = fetch vm"
  by (cases "ip (last (frames vm))") (simp_all add: fetch_def set_stack_def)

text \<open>
  Every VM that \<^verbatim>\<open>create\<close> or \<^verbatim>\<open>deserialize\<close> hands out has no pending syscall:
  a pending syscall is only ever set by a pass of the loop.
\<close>

lemma syscall_create: "syscall (create env p) = None"
  by (simp add: create_def)

lemma syscall_deserialize: "deserialize dec img V = Inr vm \<Longrightarrow> syscall vm = None"
  by (auto simp: deserialize_def Let_def bind_err_eq_Inr)

lemma deserialize_pushes:
  assumes "img_status img = SYSCALL_S" and "V \<noteq> Undefined" and "frames (dec (img_state img)) \<noteq> []"
  shows "deserialize dec img V
     = Inr ((set_stack (cur_stack (dec (img_state img)) @ [V]) (dec (img_state img)))\<lparr>syscall := None\<rparr>)"
  using assms by (simp add: deserialize_def Let_def)

lemma resume_equals_inline:
  assumes nopend: "syscall vm0 = None"
    and f: "fetch vm0 = Inr \<lparr>itype = CALL, ivalue = Some (int (length as)), lineNumber = l\<rparr>"
    and st: "cur_stack vm0 = st @ Syscall nm # as"
    and it: "iteration env vm0 = Inr vm1"
    and len: "length (frames vm1) = length (frames vm0)"
  shows "iteration (env\<lparr>natives := (nm', returning (int (length as)) V) # natives env\<rparr>)
           (set_stack (st @ Native nm' # as) vm0)
         = Inr ((set_stack (cur_stack vm1 @ [V]) vm1)\<lparr>syscall := None\<rparr>)"
proof -
  let ?call = "\<lparr>itype = CALL, ivalue = Some (int (length as)), lineNumber = l\<rparr>"
  let ?env = "env\<lparr>natives := (nm', returning (int (length as)) V) # natives env\<rparr>"
  let ?vm0 = "set_stack (st @ Native nm' # as) vm0"
  define f0 where "f0 = last (frames vm0)"
  define fs where "fs = butlast (frames vm0)"
  from f obtain k where fr: "frames vm0 \<noteq> []" and k: "ip f0 = Some k"
    by (auto simp: fetch_def f0_def split: if_splits option.splits)
  have frames0: "frames vm0 = fs @ [f0]"
    using fr by (simp add: fs_def f0_def)
  from it f obtain vmx vm2 where e: "execute env ?call vm0 = Inr vmx"
    and a: "advance vmx = Inr vm2" and v1: "vm1 = fall_off vm2"
    by (auto simp: iteration_def bind_err_eq_Inr)
  from execute_CALL_syscall [OF fr st e] obtain sc where
    vmx: "vmx = (set_stack st vm0)\<lparr>syscall := Some sc\<rparr>" by blast
  have framesx: "frames vmx = fs @ [f0\<lparr>stack := st\<rparr>]"
    using vmx frames0 by (simp add: set_stack_def)
  from a have vm2: "vm2 = set_ip (Some (k + 1)) vmx"
    using framesx k by (auto simp: advance_def split: if_splits)
  have frames2: "frames vm2 = fs @ [f0\<lparr>stack := st, ip := Some (k + 1)\<rparr>]"
    using vm2 framesx by (simp add: set_ip_def)
  have inside: "\<not> k + 1 \<ge> int (length (ftext f0))"
  proof
    assume "k + 1 \<ge> int (length (ftext f0))"
    with v1 frames2 have "frames vm1 = fs" by (simp add: fall_off_def)
    with len frames0 show False by simp
  qed
  with v1 frames2 have vm1: "vm1 = vm2" by (simp add: fall_off_def)
  have stack1: "cur_stack vm1 = st"
    using vm1 frames2 by (simp add: cur_stack_def)
  have fetch': "fetch ?vm0 = Inr ?call"
    using f fr by (simp add: fetch_set_stack)
  have fr': "frames ?vm0 \<noteq> []" by (simp add: set_stack_def)
  have "execute ?env ?call ?vm0 = Inr (set_stack (st @ [V]) ?vm0)"
  proof (rule execute_CALL_native [where nm = nm', OF fr'])
    show "cur_stack ?vm0 = st @ Native nm' # as" by simp
    show "map_of (natives ?env) nm' = Some (returning (int (length as)) V)" by simp
  qed
  moreover have "advance (set_stack (st @ [V]) ?vm0)
      = Inr (set_ip (Some (k + 1)) (set_stack (st @ [V]) ?vm0))"
    using frames0 k by (simp add: advance_def set_stack_def)
  moreover have "fall_off (set_ip (Some (k + 1)) (set_stack (st @ [V]) ?vm0))
      = set_ip (Some (k + 1)) (set_stack (st @ [V]) ?vm0)"
    using frames0 inside by (simp add: fall_off_def set_ip_def set_stack_def)
  ultimately have inline: "iteration ?env ?vm0 = Inr (set_ip (Some (k + 1)) (set_stack (st @ [V]) ?vm0))"
    using fetch' by (simp add: iteration_def)
  have "(set_stack (cur_stack vm1 @ [V]) vm1)\<lparr>syscall := None\<rparr>
      = set_ip (Some (k + 1)) (set_stack (st @ [V]) ?vm0)"
    using stack1 vm1 vm2 vmx frames0 nopend
    by (simp add: set_stack_def set_ip_def)
  with inline show ?thesis by simp
qed


lemma findIndex_minus_one: "(findIndex P xs = - 1) = (\<forall>x\<in>set xs. \<not> P x)"
proof (cases "find P xs")
  case None
  have "findIndex P xs = - 1"
    unfolding findIndex_def None by simp
  moreover have "\<forall>x\<in>set xs. \<not> P x"
    using None by (simp add: find_None_iff)
  ultimately show ?thesis by simp
next
  case (Some y)
  have "findIndex P xs \<noteq> - 1"
    unfolding findIndex_def Some by simp
  moreover have "\<exists>x\<in>set xs. P x"
    using Some by (auto simp: find_Some_iff)
  ultimately show ?thesis by simp
qed

lemma execute_RET_with_caller:
  assumes "frames vm = fs @ [caller, callee]"
  shows "execute env \<lparr>itype = RET, ivalue = v, lineNumber = l\<rparr> vm
     = (if v = Some 1
        then (if stack callee = [] then Inl CompilerBug
              else Inr (vm\<lparr>frames := fs @ [caller\<lparr>stack := stack caller @ [last (stack callee)]\<rparr>]\<rparr>))
        else Inr (vm\<lparr>frames := fs @ [caller\<lparr>stack := stack caller @ [Null]\<rparr>]\<rparr>))"
  using assms
  by (simp add: execute_def handled_def dispatch_def exec_RET_def cur_stack_def pop_def
      butlast_append)

section \<open>The model on the end-to-end scenarios\<close>

text \<open>
  Sibling blocks may declare the same name: the local of the first block is dropped, with
  a POP, when the block ends.
\<close>

lemma sibling_blocks_compile:
  "compile sibling_source
     = Inr \<lparr>ptext = [\<lparr>itype = DATA, ivalue = Some 0, lineNumber = Some 1\<rparr>,
                      \<lparr>itype = POP, ivalue = None, lineNumber = Some 1\<rparr>,
                      \<lparr>itype = DATA, ivalue = Some 1, lineNumber = Some 2\<rparr>,
                      \<lparr>itype = POP, ivalue = None, lineNumber = Some 2\<rparr>],
             pdata = [Number 1, Number 2]\<rparr>"
  by code_simp

text \<open>
  The scenarios suspend with the syscall records that the specification lists:
  \<open>result\<close> with \<open>[3]\<close>, \<open>r\<close> with the list \<open>[1, 9, 3]\<close>, and \<open>r\<close> with
  \<open>[120]\<close>.
\<close>

lemma scenario_sum:
  "map_sum id syscall (run_loop generic_host 20 (create generic_host sum_program))
     = Inr (Some \<lparr>sys_name = ''result'', sys_args = [Number 3]\<rparr>)"
  by code_simp

lemma scenario_list_store:
  "map_sum id (\<lambda>vm. (syscall vm, heap vm))
       (run_loop generic_host 30 (create generic_host list_store_program))
     = Inr (Some \<lparr>sys_name = ''r'', sys_args = [List 0]\<rparr>, [[Number 1, Number 9, Number 3]])"
  by code_simp

lemma scenario_factorial:
  "map_sum id syscall (run_loop generic_host 200 (create generic_host fact_program))
     = Inr (Some \<lparr>sys_name = ''r'', sys_args = [Number 120]\<rparr>)"
  by code_simp

text \<open>
  The input protocol: the run traps at \<open>input\<close>; resumed with the number 3 through
  \<^verbatim>\<open>deserialize\<close> it traps at \<open>dummy\<close> with \<open>[3]\<close>.
\<close>

lemma scenario_resume:
  "map_sum id syscall
     (bind_err (run protocol_host encode 100 (create protocol_host resume_program))
        (\<lambda>(img, vm). bind_err (deserialize decode img (Number 3))
           (\<lambda>vm1. run_loop protocol_host 100 vm1)))
   = Inr (Some \<lparr>sys_name = ''dummy'', sys_args = [Number 3]\<rparr>)"
  by code_simp

section \<open>Traps of the loop\<close>

text \<open>
  When \<^verbatim>\<open>run\<close>, with a step budget or with the default one, starts without a pending
  syscall and returns with one set, the status of the image is SYSCALL and the image
  carries the syscall; the last pass of the loop executed a CALL at some index \<open>i\<close>
  of the innermost frame's text; and if that CALL is not the last instruction of the
  text, the frames stack is non-empty and its topmost frame is that frame with
  \<open>ip = i + 1\<close>, the instruction following the CALL. Only when the CALL is the last
  instruction of its text has the frame been popped.
\<close>

lemma pending_syscall_after_run:
  assumes "run env enc n vm = Inr (img, vm') \<or> run_default env enc vm = Some (Inr (img, vm'))"
    and "syscall vm = None" and "syscall vm' \<noteq> None"
  shows "img_status img = SYSCALL_S \<and> img_syscall img = syscall vm'
     \<and> (\<exists>k vm0 i st. run_loop env k vm = Inr vm0 \<and> syscall vm0 = None \<and> frames vm0 \<noteq> []
          \<and> iteration env vm0 = Inr vm'
          \<and> ip (last (frames vm0)) = Some (int i)
          \<and> i < length (ftext (last (frames vm0)))
          \<and> itype (ftext (last (frames vm0)) ! i) = CALL
          \<and> frames vm' = (if i + 1 < length (ftext (last (frames vm0)))
               then butlast (frames vm0) @
                    [(last (frames vm0))\<lparr>ip := Some (int i + 1), stack := st\<rparr>]
               else butlast (frames vm0)))"
proof -
  from assms(1) obtain m where m: "run_loop env m vm = Inr vm'" and img: "snapshot enc vm' = Inr img"
  proof
    assume "run env enc n vm = Inr (img, vm')"
    then have "run_loop env n vm = Inr vm'" "snapshot enc vm' = Inr img"
      by (auto simp: run_def bind_err_eq_Inr)
    then show ?thesis using that by blast
  next
    assume "run_default env enc vm = Some (Inr (img, vm'))"
    then obtain r where r: "run_unbounded env vm = Some r"
      and b: "bind_err r (\<lambda>vm1. bind_err (snapshot enc vm1) (\<lambda>img. Inr (img, vm1))) = Inr (img, vm')"
      by (auto simp: run_default_def)
    from b have "r = Inr vm'" "snapshot enc vm' = Inr img"
      by (auto simp: bind_err_eq_Inr)
    with r run_unbounded_finite [of env vm r] show ?thesis using that by blast
  qed
  from run_loop_trap [OF m assms(2,3)] obtain k vm0 where
    k: "run_loop env k vm = Inr vm0" "syscall vm0 = None" "frames vm0 \<noteq> []"
       "iteration env vm0 = Inr vm'"
    by blast
  from k(2) assms(3) have "syscall vm' \<noteq> syscall vm0" by simp
  from trap_iteration [OF k(4) this] obtain i st where
    t: "ip (last (frames vm0)) = Some (int i)"
       "i < length (ftext (last (frames vm0)))"
       "itype (ftext (last (frames vm0)) ! i) = CALL"
       "frames vm' = (if i + 1 < length (ftext (last (frames vm0)))
          then butlast (frames vm0) @
               [(last (frames vm0))\<lparr>ip := Some (int i + 1), stack := st\<rparr>]
          else butlast (frames vm0))"
    by blast
  have "img_status img = SYSCALL_S \<and> img_syscall img = syscall vm'"
    using img assms(3) by (auto simp: snapshot_def serialize_def status_of_def bind_err_eq_Inr)
  with k t show ?thesis by blast
qed

section \<open>The encoding round trip\<close>

text \<open>
  Decoding allocates the arrays of a text at the end of the heap, and writing the
  decoded value gives the text back, in every heap that extends the one after
  decoding and with every budget that covers the arrays allocated.
\<close>

lemma array_at_append [simp]: "array_at (h @ vs # e) (length h) = Inr vs"
  by (simp add: array_at_def)

lemma decode_encode_value:
  "decode_value j h r = (v, h', r') \<Longrightarrow>
     \<exists>e. h' = h @ e \<and> (\<forall>n \<ge> length e. \<forall>e'. encode_value n (h' @ e') v = Inr j)"
  "decode_values js h r = (vs, h', r') \<Longrightarrow>
     \<exists>e. h' = h @ e \<and> (\<forall>n \<ge> length e. \<forall>e'. encode_values n (h' @ e') vs = Inr js)"
proof (induction j h r and js h r arbitrary: v h' r' and vs h' r' rule: decode_value_decode_values.induct)
  case (9 js h r)
  obtain vs h1 r1 where d: "decode_values js h r = (vs, h1, r1)"
    by (cases "decode_values js h r") auto
  from 9(1) [OF d] obtain e where e: "h1 = h @ e"
    and enc: "\<And>n e'. length e \<le> n \<Longrightarrow> encode_values n (h1 @ e') vs = Inr js"
    by blast
  from 9(2) d have v: "v = Tuple (length h1)" "h' = h1 @ [vs]" by simp_all
  have "encode_value n (h' @ e') v = Inr (PlainTuple js)" if "length (e @ [vs]) \<le> n" for n e'
  proof -
    from that obtain m where n: "n = Suc m" and m: "length e \<le> m"
      by (cases n) auto
    from enc [OF m, of "vs # e'"] show ?thesis
      by (simp add: v n)
  qed
  with e v show ?case by (intro exI [of _ "e @ [vs]"]) simp
next
  case (10 js h r)
  obtain vs h1 r1 where d: "decode_values js h r = (vs, h1, r1)"
    by (cases "decode_values js h r") auto
  from 10(1) [OF d] obtain e where e: "h1 = h @ e"
    and enc: "\<And>n e'. length e \<le> n \<Longrightarrow> encode_values n (h1 @ e') vs = Inr js"
    by blast
  from 10(2) d have v: "v = List (length h1)" "h' = h1 @ [vs]" by simp_all
  have "encode_value n (h' @ e') v = Inr (PlainList js)" if "length (e @ [vs]) \<le> n" for n e'
  proof -
    from that obtain m where n: "n = Suc m" and m: "length e \<le> m"
      by (cases n) auto
    from enc [OF m, of "vs # e'"] show ?thesis
      by (simp add: v n)
  qed
  with e v show ?case by (intro exI [of _ "e @ [vs]"]) simp
next
  case (12 j js h r)
  obtain v1 h1 r1 where d1: "decode_value j h r = (v1, h1, r1)"
    by (cases "decode_value j h r") auto
  obtain vs1 h2 r2 where d2: "decode_values js h1 r1 = (vs1, h2, r2)"
    by (cases "decode_values js h1 r1") auto
  from 12(1) [OF d1] obtain e1 where e1: "h1 = h @ e1"
    and enc1: "\<And>n e'. length e1 \<le> n \<Longrightarrow> encode_value n (h1 @ e') v1 = Inr j"
    by blast
  from 12(2) [OF d1 [symmetric] refl d2] obtain e2 where e2: "h2 = h1 @ e2"
    and enc2: "\<And>n e'. length e2 \<le> n \<Longrightarrow> encode_values n (h2 @ e') vs1 = Inr js"
    by blast
  from 12(3) d1 d2 have v: "vs = v1 # vs1" "h' = h2" by simp_all
  have "encode_values n (h' @ e') vs = Inr (j # js)" if "length (e1 @ e2) \<le> n" for n e'
  proof -
    from that have "length e1 \<le> n" "length e2 \<le> n" by simp_all
    from enc1 [OF this(1), of "e2 @ e'"] enc2 [OF this(2), of e'] show ?thesis
      by (simp add: v e2)
  qed
  with e1 e2 v show ?case by (intro exI [of _ "e1 @ e2"]) simp
qed auto

lemma decode_encode_frames:
  "decode_frames fs h r = (gs, h', r') \<Longrightarrow>
     \<exists>e. h' = h @ e \<and> (\<forall>n \<ge> length e. \<forall>e'. encode_frames n (h' @ e') gs = Inr fs)"
proof (induction fs h r arbitrary: gs h' r' rule: decode_frames.induct)
  case (1 h r)
  then show ?case by auto
next
  case (2 f fs h r)
  obtain st h1 r1 where d1: "decode_values (plain_stack f) h r = (st, h1, r1)"
    by (cases "decode_values (plain_stack f) h r") auto
  obtain gs1 h2 r2 where d2: "decode_frames fs h1 r1 = (gs1, h2, r2)"
    by (cases "decode_frames fs h1 r1") auto
  from decode_encode_value(2) [OF d1] obtain e1 where e1: "h1 = h @ e1"
    and enc1: "\<And>n e'. length e1 \<le> n \<Longrightarrow> encode_values n (h1 @ e') st = Inr (plain_stack f)"
    by blast
  from 2(1) [OF d1 [symmetric] refl d2] obtain e2 where e2: "h2 = h1 @ e2"
    and enc2: "\<And>n e'. length e2 \<le> n \<Longrightarrow> encode_frames n (h2 @ e') gs1 = Inr fs"
    by blast
  from 2(2) d1 d2 have v: "gs = \<lparr>ip = plain_ip f, stack = st, ftext = plain_text f, sprops = []\<rparr> # gs1"
    "h' = h2" by simp_all
  have "encode_frames n (h' @ e') gs = Inr (f # fs)" if "length (e1 @ e2) \<le> n" for n e'
  proof -
    from that have "length e1 \<le> n" "length e2 \<le> n" by simp_all
    from enc1 [OF this(1), of "e2 @ e'"] enc2 [OF this(2), of e'] show ?thesis
      by (simp add: v e2)
  qed
  with e1 e2 v show ?case by (intro exI [of _ "e1 @ e2"]) simp
qed

lemma decode_encode_globals:
  "decode_globals g h r = (g', h', r') \<Longrightarrow>
     \<exists>e. h' = h @ e \<and> (\<forall>n \<ge> length e. \<forall>e'. encode_globals n (h' @ e') g' = Inr g)"
proof (induction g h r arbitrary: g' h' r' rule: decode_globals.induct)
  case (1 h r)
  then show ?case by auto
next
  case (2 k j g h r)
  obtain v h1 r1 where d1: "decode_value j h r = (v, h1, r1)"
    by (cases "decode_value j h r") auto
  obtain g1 h2 r2 where d2: "decode_globals g h1 r1 = (g1, h2, r2)"
    by (cases "decode_globals g h1 r1") auto
  from decode_encode_value(1) [OF d1] obtain e1 where e1: "h1 = h @ e1"
    and enc1: "\<And>n e'. length e1 \<le> n \<Longrightarrow> encode_value n (h1 @ e') v = Inr j"
    by blast
  from 2(1) [OF d1 [symmetric] refl d2] obtain e2 where e2: "h2 = h1 @ e2"
    and enc2: "\<And>n e'. length e2 \<le> n \<Longrightarrow> encode_globals n (h2 @ e') g1 = Inr g"
    by blast
  from 2(2) d1 d2 have v: "g' = (k, v) # g1" "h' = h2" by simp_all
  have "encode_globals n (h' @ e') g' = Inr ((k, j) # g)" if "length (e1 @ e2) \<le> n" for n e'
  proof -
    from that have "length e1 \<le> n" "length e2 \<le> n" by simp_all
    from enc1 [OF this(1), of "e2 @ e'"] enc2 [OF this(2), of e'] show ?thesis
      by (simp add: v e2)
  qed
  with e1 e2 v show ?case by (intro exI [of _ "e1 @ e2"]) simp
qed

lemma decode_encode_syscall:
  "decode_syscall s h r = (sc, h', r') \<Longrightarrow>
     \<exists>e. h' = h @ e \<and> (\<forall>n \<ge> length e. \<forall>e'. encode_syscall n (h' @ e') sc = Inr s)"
proof (cases s)
  case None
  assume "decode_syscall s h r = (sc, h', r')"
  with None show ?thesis by auto
next
  case (Some p)
  assume a: "decode_syscall s h r = (sc, h', r')"
  obtain nm js where p: "p = (nm, js)" by (cases p)
  obtain vs h1 r1 where d: "decode_values js h r = (vs, h1, r1)"
    by (cases "decode_values js h r") auto
  from decode_encode_value(2) [OF d] obtain e where e: "h1 = h @ e"
    and enc: "\<And>n e'. length e \<le> n \<Longrightarrow> encode_values n (h1 @ e') vs = Inr js"
    by blast
  from a Some p d have "sc = Some \<lparr>sys_name = nm, sys_args = vs\<rparr>" "h' = h1" by simp_all
  with e enc Some p show ?thesis by (intro exI [of _ e]) simp
qed

text \<open>The decoded VM, part by part, with the arrays that each part allocated.\<close>

lemma decode_parts:
  "\<exists>d fs g sc e1 e2 e3 e4.
     decode p = \<lparr>vdata = d, frames = fs, globals = g, syscall = sc,
                 heap = e1 @ e2 @ e3 @ e4, hprops = []\<rparr>
     \<and> (\<forall>n \<ge> length e1. \<forall>e'. encode_values n (e1 @ e') d = Inr (plain_data p))
     \<and> (\<forall>n \<ge> length e2. \<forall>e'. encode_frames n (e1 @ e2 @ e') fs = Inr (plain_frames p))
     \<and> (\<forall>n \<ge> length e3. \<forall>e'. encode_globals n (e1 @ e2 @ e3 @ e') g = Inr (plain_globals p))
     \<and> (\<forall>n \<ge> length e4. \<forall>e'. encode_syscall n (e1 @ e2 @ e3 @ e4 @ e') sc = Inr (plain_syscall p))
     \<and> length fs = length (plain_frames p)"
proof -
  obtain d h1 r1 where d1: "decode_values (plain_data p) [] 0 = (d, h1, r1)"
    by (cases "decode_values (plain_data p) [] 0") auto
  obtain fs h2 r2 where d2: "decode_frames (plain_frames p) h1 r1 = (fs, h2, r2)"
    by (cases "decode_frames (plain_frames p) h1 r1") auto
  obtain g h3 r3 where d3: "decode_globals (plain_globals p) h2 r2 = (g, h3, r3)"
    by (cases "decode_globals (plain_globals p) h2 r2") auto
  obtain sc h4 r4 where d4: "decode_syscall (plain_syscall p) h3 r3 = (sc, h4, r4)"
    by (cases "decode_syscall (plain_syscall p) h3 r3") auto
  from decode_encode_value(2) [OF d1] obtain e1 where e1: "h1 = e1"
    and c1: "\<forall>n \<ge> length e1. \<forall>e'. encode_values n (h1 @ e') d = Inr (plain_data p)"
    by auto
  from decode_encode_frames [OF d2] obtain e2 where e2: "h2 = h1 @ e2"
    and c2: "\<forall>n \<ge> length e2. \<forall>e'. encode_frames n (h2 @ e') fs = Inr (plain_frames p)"
    by blast
  from decode_encode_globals [OF d3] obtain e3 where e3: "h3 = h2 @ e3"
    and c3: "\<forall>n \<ge> length e3. \<forall>e'. encode_globals n (h3 @ e') g = Inr (plain_globals p)"
    by blast
  from decode_encode_syscall [OF d4] obtain e4 where e4: "h4 = h3 @ e4"
    and c4: "\<forall>n \<ge> length e4. \<forall>e'. encode_syscall n (h4 @ e') sc = Inr (plain_syscall p)"
    by blast
  have len: "length gs = length qs" if "decode_frames qs h r = (gs, h', r')" for qs h r gs h' r'
    using that
    by (induction qs h r arbitrary: gs h' r' rule: decode_frames.induct)
       (auto split: prod.splits)
  have "decode p = \<lparr>vdata = d, frames = fs, globals = g, syscall = sc,
                 heap = e1 @ e2 @ e3 @ e4, hprops = []\<rparr>"
    using d1 d2 d3 d4 e1 e2 e3 e4 by (simp add: decode_def)
  with c1 c2 c3 c4 e1 e2 e3 e4 len [OF d2] show ?thesis
    by (intro exI conjI) (assumption | simp)+
qed

text \<open>
  Encoding the decoded VM gives the encoding back, also after
  \<^verbatim>\<open>vm.syscall = undefined\<close>; the VM itself need not come back, since two values
  that shared an array are decoded to two arrays.
\<close>

lemma encode_decode: "encode (decode p) = Inr p"
proof -
  from decode_parts [of p] obtain d fs g sc e1 e2 e3 e4 where
    p: "decode p = \<lparr>vdata = d, frames = fs, globals = g, syscall = sc,
                 heap = e1 @ e2 @ e3 @ e4, hprops = []\<rparr>"
    and c1: "\<forall>n \<ge> length e1. \<forall>e'. encode_values n (e1 @ e') d = Inr (plain_data p)"
    and c2: "\<forall>n \<ge> length e2. \<forall>e'. encode_frames n (e1 @ e2 @ e') fs = Inr (plain_frames p)"
    and c3: "\<forall>n \<ge> length e3. \<forall>e'. encode_globals n (e1 @ e2 @ e3 @ e') g = Inr (plain_globals p)"
    and c4: "\<forall>n \<ge> length e4. \<forall>e'. encode_syscall n (e1 @ e2 @ e3 @ e4 @ e') sc = Inr (plain_syscall p)"
    by (elim exE conjE)
  let ?n = "length (e1 @ e2 @ e3 @ e4)"
  from c1 [rule_format, of ?n "e2 @ e3 @ e4"] c2 [rule_format, of ?n "e3 @ e4"]
    c3 [rule_format, of ?n e4] c4 [rule_format, of ?n "[]"]
  show ?thesis
    by (simp add: encode_def p)
qed

lemma encode_decode_cleared:
  "encode ((decode p)\<lparr>syscall := None\<rparr>) = Inr (p\<lparr>plain_syscall := None\<rparr>)"
proof -
  from decode_parts [of p] obtain d fs g sc e1 e2 e3 e4 where
    p: "decode p = \<lparr>vdata = d, frames = fs, globals = g, syscall = sc,
                 heap = e1 @ e2 @ e3 @ e4, hprops = []\<rparr>"
    and c1: "\<forall>n \<ge> length e1. \<forall>e'. encode_values n (e1 @ e') d = Inr (plain_data p)"
    and c2: "\<forall>n \<ge> length e2. \<forall>e'. encode_frames n (e1 @ e2 @ e') fs = Inr (plain_frames p)"
    and c3: "\<forall>n \<ge> length e3. \<forall>e'. encode_globals n (e1 @ e2 @ e3 @ e') g = Inr (plain_globals p)"
    by (elim exE conjE)
  let ?n = "length (e1 @ e2 @ e3 @ e4)"
  from c1 [rule_format, of ?n "e2 @ e3 @ e4"] c2 [rule_format, of ?n "e3 @ e4"]
    c3 [rule_format, of ?n e4]
  show ?thesis
    by (simp add: encode_def p)
qed

lemma frames_decode: "length (frames (decode p)) = length (plain_frames p)"
  using decode_parts [of p] by auto

lemma encode_frames_length: "encode_frames n h fs = Inr gs \<Longrightarrow> length gs = length fs"
  by (induction fs arbitrary: gs) (auto simp: bind_err_eq_Inr)

lemma encode_shape:
  assumes "encode vm = Inr p"
  shows "length (plain_frames p) = length (frames vm)"
    and "syscall vm = None \<Longrightarrow> plain_syscall p = None"
  using assms by (auto simp: encode_def bind_err_eq_Inr dest: encode_frames_length)

text \<open>
  A pending syscall does not survive the round trip: \<^verbatim>\<open>run(0)\<close> on the VM itself
  reports SYSCALL with the syscall, and after \<^verbatim>\<open>deserialize\<close> it reports the
  status that the frames give and no syscall.
\<close>

lemma roundtrip_clears_pending:
  assumes "syscall vm \<noteq> None" and "encode vm = Inr p"
  shows "returned_image (run env encode 0 vm)
       = Inr \<lparr>img_state = p, img_status = SYSCALL_S, img_syscall = syscall vm\<rparr>"
    and "bind_err (serialize encode vm st sc)
           (\<lambda>img. bind_err (deserialize decode img Undefined)
              (\<lambda>vm1. returned_image (run env encode 0 vm1)))
       = Inr \<lparr>img_state = p\<lparr>plain_syscall := None\<rparr>,
              img_status = (if frames vm = [] then HALTED else RUNNING), img_syscall = None\<rparr>"
proof -
  show "returned_image (run env encode 0 vm)
       = Inr \<lparr>img_state = p, img_status = SYSCALL_S, img_syscall = syscall vm\<rparr>"
    using assms
    by (simp add: run_def returned_image_def snapshot_def serialize_def status_of_def)
  from encode_shape(1) [OF assms(2)] frames_decode [of p]
  have f: "(frames (decode p) = []) = (frames vm = [])"
    by (metis length_0_conv)
  show "bind_err (serialize encode vm st sc)
           (\<lambda>img. bind_err (deserialize decode img Undefined)
              (\<lambda>vm1. returned_image (run env encode 0 vm1)))
       = Inr \<lparr>img_state = p\<lparr>plain_syscall := None\<rparr>,
              img_status = (if frames vm = [] then HALTED else RUNNING), img_syscall = None\<rparr>"
    using assms(2) encode_decode_cleared [of p] f
    by (simp add: serialize_def deserialize_def run_def returned_image_def snapshot_def
        status_of_def)
qed

text \<open>
  A resumption where the frame of the CALL is still there:
  \<^verbatim>\<open>[LOADGL 0, CALL 0, POP]\<close> trapped at \<open>input\<close> and is resumed with the string
  \<open>hello\<close>; the resumed VM is the one that the CALL of a native function returning
  \<open>hello\<close> leaves.
\<close>

lemma resume_with_frame:
  "iteration input_host before_trap_vm = Inr (trapped_vm [pending_frame])
   \<and> bind_err (snapshot encode (trapped_vm [pending_frame]))
        (\<lambda>img. deserialize decode img (String ''hello'')) = Inr resumed_vm
   \<and> iteration (input_host\<lparr>natives := (''f'', returning 0 (String ''hello'')) # natives input_host\<rparr>)
        (set_stack [Native ''f''] before_trap_vm) = Inr resumed_vm"
  by code_simp

text \<open>
  What the encoding does not keep. In \<open>sharing_program\<close> the globals \<open>a\<close> and
  \<open>b\<close> name one list. When \<open>input\<close> returns at once, \<open>b += [2]\<close> extends that
  list and the program ends at \<open>syscall("r", a)\<close> with the list \<open>[1, 2]\<close>. When
  \<open>input\<close> is a syscall and the run is resumed through \<^verbatim>\<open>deserialize\<close>, \<open>a\<close>
  and \<open>b\<close> have become two lists, and the program ends with the list \<open>[1]\<close>.
\<close>

lemma resume_loses_sharing:
  "map_sum id (\<lambda>img. plain_syscall (img_state img))
       (returned_image (run inline_host encode 100 (create inline_host sharing_program)))
     = Inr (Some (''r'', [PlainList [PlainNumber 1, PlainNumber 2]]))
   \<and> map_sum id (\<lambda>img. plain_syscall (img_state img))
       (bind_err (returned_image (run protocol_host encode 100 (create protocol_host sharing_program)))
          (\<lambda>img. bind_err (deserialize decode img (String ''hello''))
             (\<lambda>vm1. returned_image (run protocol_host encode 100 vm1))))
     = Inr (Some (''r'', [PlainList [PlainNumber 1]]))"
  by code_simp

section \<open>The claims\<close>

subsection \<open>C1\<close>

text \<open>
  Claim C1, as stated, fails. The program \<^verbatim>\<open>[1] == [1]\<close> builds two lists with
  equal elements; after four steps they are on the stack, they are structurally equal,
  and EQ pushes Boolean false, because \<^verbatim>\<open>b.value === a.value\<close> compares the two
  arrays by reference.
\<close>

theorem eq_counterexample:
  "run_loop no_host 4 (create no_host two_lists_program) = Inr two_lists_vm
   \<and> cur_stack two_lists_vm = [List 0, List 1]
   \<and> structurally_equal (heap two_lists_vm) (List 0) (List 1)
   \<and> execute no_host (ins EQ None) two_lists_vm = Inr (set_stack [Boolean False] two_lists_vm)
   \<and> map_sum id cur_stack (execute no_host (ins EQ None) two_lists_vm) = Inr [Boolean False]"
proof (intro conjI)
  show "run_loop no_host 4 (create no_host two_lists_program) = Inr two_lists_vm"
    by code_simp
  show "cur_stack two_lists_vm = [List 0, List 1]"
    by (simp add: two_lists_vm_def cur_stack_def)
  have "array_at (heap two_lists_vm) 0 = Inr [Number 1]"
    and "array_at (heap two_lists_vm) 1 = Inr [Number 1]"
    by (simp_all add: two_lists_vm_def array_at_def)
  moreover have "list_all2 (structurally_equal (heap two_lists_vm)) [Number 1] [Number 1]"
    by (simp add: structurally_equal.intros)
  ultimately show "structurally_equal (heap two_lists_vm) (List 0) (List 1)"
    by (rule structurally_equal.intros)
  show "execute no_host (ins EQ None) two_lists_vm = Inr (set_stack [Boolean False] two_lists_vm)"
    by code_simp
  show "map_sum id cur_stack (execute no_host (ins EQ None) two_lists_vm) = Inr [Boolean False]"
    by code_simp
qed

text \<open>
  Claim C1, amended: for every pair of values \<open>a\<close> and \<open>b\<close>, EQ pops both and
  pushes Boolean true exactly when they have the same tag and payloads that are equal
  under JavaScript's strict equality: equal strings, numbers or booleans, or the same
  array or Function object. Values with distinct tags always compare unequal, and NEQ
  pushes the negation.
\<close>

theorem eq_is_strict_equality:
  assumes "frames vm \<noteq> []" and "cur_stack vm = st @ [b, a]"
    and "a \<noteq> Undefined" and "b \<noteq> Undefined"
  shows "execute env \<lparr>itype = EQ, ivalue = v, lineNumber = l\<rparr> vm
           = Inr (set_stack (st @ [Boolean (strict_equal a b)]) vm)
       \<and> execute env \<lparr>itype = NEQ, ivalue = v', lineNumber = l'\<rparr> vm
           = Inr (set_stack (st @ [Boolean (\<not> strict_equal a b)]) vm)
       \<and> (vtype a \<noteq> vtype b \<longrightarrow> \<not> strict_equal a b)
       \<and> map_sum id cur_stack (execute env \<lparr>itype = EQ, ivalue = v, lineNumber = l\<rparr> vm)
           = Inr (st @ [Boolean (strict_equal a b)])
       \<and> map_sum id cur_stack (execute env \<lparr>itype = NEQ, ivalue = v', lineNumber = l'\<rparr> vm)
           = Inr (st @ [Boolean (\<not> strict_equal a b)])"
  using assms execute_EQ [OF assms] execute_NEQ [OF assms] strict_equal_iff [of a b]
  by simp

text \<open>Claim C1, witness: a Number and a String with the same digits.\<close>

theorem eq_is_strict_equality_witness:
  "frames mixed_vm \<noteq> [] \<and> cur_stack mixed_vm = [] @ [String ''1'', Number 1]
   \<and> Number 1 \<noteq> Undefined \<and> String ''1'' \<noteq> Undefined
   \<and> vtype (Number 1) \<noteq> vtype (String ''1'')
   \<and> execute no_host (ins EQ None) mixed_vm = Inr (set_stack [Boolean False] mixed_vm)
   \<and> execute no_host (ins NEQ None) mixed_vm = Inr (set_stack [Boolean True] mixed_vm)
   \<and> map_sum id cur_stack (execute no_host (ins EQ None) mixed_vm) = Inr [Boolean False]
   \<and> map_sum id cur_stack (execute no_host (ins NEQ None) mixed_vm) = Inr [Boolean True]"
proof -
  have e: "map_sum id cur_stack (execute no_host (ins EQ None) mixed_vm) = Inr [Boolean False]"
    by code_simp
  have n: "map_sum id cur_stack (execute no_host (ins NEQ None) mixed_vm) = Inr [Boolean True]"
    by code_simp
  from eq_is_strict_equality [of mixed_vm "[]" "String ''1''" "Number 1" no_host None None None None] e n
  show ?thesis
    by (simp add: mixed_vm_def cur_stack_def ins_def)
qed

subsection \<open>C2\<close>

text \<open>
  Claim C2 at the keys \<open>length\<close> and \<open>-1\<close>. The program \<^verbatim>\<open>[1, 2, 3][3]\<close> reaches
  SUBSCRIPT with a list of three elements and the key 3; the check
  \<^verbatim>\<open>container.value.length < key.value\<close> lets it pass, no IndexError is raised, and
  \<^verbatim>\<open>undefined\<close> is pushed. The same happens for \<^verbatim>\<open>[1, 2, 3][-1]\<close>.
\<close>

theorem subscript_out_of_range_not_trapped:
  "run_loop no_host 5 (create no_host subscript_program) = Inr (subscript_vm [List 0, Number 3] 5)
   \<and> array_at (heap (subscript_vm [List 0, Number 3] 5)) 0 = Inr [Number 1, Number 2, Number 3]
   \<and> run_loop no_host 6 (create no_host subscript_program) = Inr (subscript_vm [Undefined] 6)
   \<and> map_sum id cur_stack (run_loop no_host 6 (create no_host negative_subscript_program))
       = Inr [List 0, Number (- 1)]
   \<and> map_sum id cur_stack (run_loop no_host 7 (create no_host negative_subscript_program))
       = Inr [Undefined]"
  by code_simp

subsection \<open>C3\<close>

text \<open>
  Claim C3 at a RET in the only frame. \<^verbatim>\<open>this.frames.at(-2)\<close> is
  \<^verbatim>\<open>undefined\<close> and \<^verbatim>\<open>run\<close> fails with a TypeError, with one step and with the
  default budget; it does not return an image with status HALTED.
\<close>

theorem ret_in_root_frame:
  "run no_host enc 1 (create no_host ret_program) = Inl TypeError
   \<and> run_default no_host enc (create no_host ret_program) = Some (Inl TypeError)"
proof
  have "run_loop no_host 1 (create no_host ret_program) = Inl TypeError"
    by code_simp
  then show "run no_host enc 1 (create no_host ret_program) = Inl TypeError"
    by (simp add: run_def)
  have "iteration no_host (create no_host ret_program) = Inl TypeError"
    by code_simp
  moreover have "frames (create no_host ret_program) \<noteq> [] \<and> syscall (create no_host ret_program) = None"
    by (simp add: create_def)
  ultimately have "run_unbounded no_host (create no_host ret_program) = Some (Inl TypeError)"
    by (subst run_unbounded.simps) simp
  then show "run_default no_host enc (create no_host ret_program) = Some (Inl TypeError)"
    by (simp add: run_default_def)
qed

subsection \<open>C4\<close>

text \<open>
  Claim C4, as stated, fails. Compiling \<^verbatim>\<open>{ let x = 1; { let x = 2; } }\<close> raises
  VariableAlreadyDeclaredInScope at the inner declaration. There the local \<open>x\<close> of
  the outer block has depth 1, the compiler is at depth 2, no local of depth 2 has the
  name, and the declaration, which would shadow the outer local, is rejected.
\<close>

theorem declare_shadowing_counterexample:
  "compile shadowing_source = Inl (VariableAlreadyDeclaredInScope (Some 2))
   \<and> depth shadowing_compiler = 2
   \<and> filter (\<lambda>loc. local_name loc = ''x'' \<and> local_depth loc = depth shadowing_compiler)
        (locals shadowing_compiler) = []
   \<and> declareVariable ''x'' (Some 2) shadowing_compiler
      = Inl (VariableAlreadyDeclaredInScope (Some 2))"
proof (intro conjI)
  show "compile shadowing_source = Inl (VariableAlreadyDeclaredInScope (Some 2))"
    by code_simp
qed (simp_all add: shadowing_compiler_def declareVariable_def findIndex_def)

text \<open>
  Claim C4, amended: for every variable declaration compiled at an inner depth, the
  compiler raises VariableAlreadyDeclaredInScope exactly when a local with the same name
  is in its list of locals, whatever the depth of that local: the locals of the same
  scope and those of every enclosing scope of the function being compiled. Otherwise
  it records the name with the current depth at the end of the list. A name that would
  shadow a local of an enclosing scope is rejected.
\<close>

theorem declare_rejects_visible_local:
  assumes "0 < depth c"
  shows "declareVariable nm l c
     = (if nm \<in> local_name ` set (locals c) then Inl (VariableAlreadyDeclaredInScope l)
        else Inr (c\<lparr>locals := locals c @ [\<lparr>local_name = nm, local_depth = depth c\<rparr>]\<rparr>))"
proof -
  have "(findIndex (\<lambda>loc. local_name loc = nm) (locals c) = - 1)
      = (nm \<notin> local_name ` set (locals c))"
    by (auto simp: findIndex_minus_one)
  with assms show ?thesis
    by (simp add: declareVariable_def Let_def)
qed

text \<open>Claim C4, witness: a new name at depth 2 is recorded with depth 2.\<close>

theorem declare_rejects_visible_local_witness:
  "0 < depth shadowing_compiler
   \<and> declareVariable ''y'' None shadowing_compiler
     = Inr (shadowing_compiler\<lparr>locals :=
         [\<lparr>local_name = ''x'', local_depth = 1\<rparr>, \<lparr>local_name = ''y'', local_depth = 2\<rparr>]\<rparr>)"
  using declare_rejects_visible_local [of shadowing_compiler "''y''" None]
  by (simp add: shadowing_compiler_def)

subsection \<open>C5\<close>


subsection \<open>C6\<close>




subsection \<open>C7\<close>


subsection \<open>C8\<close>

text \<open>
  Claim C8: CALL \<open>n\<close> on a user Function with the \<open>n\<close> arguments above it on the
  stack. When the function declares a number of parameters other than \<open>n\<close> the VM
  raises FunctionArgumentNumberMismatch; otherwise the operands leave the caller's
  stack and a new frame is pushed whose stack is the callee followed by the arguments
  in source order, with \<open>ip = -1\<close> and the callee's body as text.
\<close>

theorem call_pushes_frame:
  assumes "frames vm \<noteq> []" and "cur_stack vm = st @ Function r f # as"
  shows "execute env \<lparr>itype = CALL, ivalue = Some (int (length as)), lineNumber = l\<rparr> vm
      = (if length (args f) \<noteq> length as then Inl (FunctionArgumentNumberMismatch l)
         else Inr (vm\<lparr>frames := butlast (frames vm) @
                [(last (frames vm))\<lparr>stack := st\<rparr>,
                 \<lparr>ip = Some (- 1), stack = Function r f # as, ftext = body f, sprops = []\<rparr>]\<rparr>))"
proof -
  have "pop_n (length as) ((st @ [Function r f]) @ as) [] = Inr (as @ [], st @ [Function r f])"
    by (rule pop_n_append)
  then show ?thesis using assms
    by (simp add: execute_def handled_def dispatch_def exec_CALL_def loop_count_def
        call_function_def set_stack_def)
qed

text \<open>Claim C8, witness: a call of a one-parameter function with one argument.\<close>

theorem call_pushes_frame_witness:
  "frames call_vm \<noteq> [] \<and> cur_stack call_vm = [Null] @ Function 0 unary_function # [Number 5]
   \<and> execute no_host (ins CALL (Some 1)) call_vm
      = Inr (call_vm\<lparr>frames := [\<lparr>ip = Some 0, stack = [Null], ftext = [ins CALL (Some 1), ins POP None], sprops = []\<rparr>,
           \<lparr>ip = Some (- 1), stack = [Function 0 unary_function, Number 5], ftext = body unary_function, sprops = []\<rparr>]\<rparr>)"
  using call_pushes_frame [of call_vm "[Null]" 0 unary_function "[Number 5]" no_host None]
  by (simp add: call_vm_def cur_stack_def ins_def unary_function_def)

subsection \<open>C9\<close>

text \<open>
  Claim C9: ADD on two Lists. With operand 1 the left list's array is extended in place
  by the elements of the right one and the same reference is pushed; no other array
  changes, so every value that refers to the left list sees the longer array. With any
  other operand a new array, at an address that was not in use, holds the
  concatenation, and no existing array changes.
\<close>

theorem add_lists:
  assumes "frames vm \<noteq> []" and "cur_stack vm = st @ [List lb, List la]"
    and "array_at (heap vm) la = Inr xs" and "array_at (heap vm) lb = Inr ys"
  shows "\<exists>vm'. execute env \<lparr>itype = ADD, ivalue = v, lineNumber = l\<rparr> vm = Inr vm'
     \<and> vm' = (if v = Some 1
              then set_stack (st @ [List lb]) (vm\<lparr>heap := (heap vm)[lb := ys @ xs]\<rparr>)
              else set_stack (st @ [List (length (heap vm))]) (vm\<lparr>heap := heap vm @ [ys @ xs]\<rparr>))
     \<and> (if v = Some 1
         then cur_stack vm' = st @ [List lb]
            \<and> array_at (heap vm') lb = Inr (ys @ xs)
            \<and> (\<forall>c. c \<noteq> lb \<longrightarrow> array_at (heap vm') c = array_at (heap vm) c)
         else cur_stack vm' = st @ [List (length (heap vm))]
            \<and> array_at (heap vm) (length (heap vm)) = Inl DanglingReference
            \<and> array_at (heap vm') (length (heap vm)) = Inr (ys @ xs)
            \<and> (\<forall>c < length (heap vm). array_at (heap vm') c = array_at (heap vm) c))"
proof -
  have ex: "execute env \<lparr>itype = ADD, ivalue = v, lineNumber = l\<rparr> vm
      = Inr (if v = Some 1
              then set_stack (st @ [List lb]) (vm\<lparr>heap := (heap vm)[lb := ys @ xs]\<rparr>)
              else set_stack (st @ [List (length (heap vm))]) (vm\<lparr>heap := heap vm @ [ys @ xs]\<rparr>))"
    using assms by (simp add: execute_def handled_def dispatch_def exec_ADD_def)
  have lb: "lb < length (heap vm)"
    using assms(4) by (simp add: array_at_def split: if_splits)
  have h1: "heap (set_stack s w) = heap w" for s w
    by (simp add: set_stack_def)
  show ?thesis
    unfolding ex using lb
    by (auto simp: h1 array_at_def nth_append)
qed

text \<open>
  Claim C9, witness: the left list is also in the stack slot below; after the append
  both slots refer to the array \<open>[1, 2]\<close>.
\<close>

theorem add_lists_witness:
  "frames alias_vm \<noteq> [] \<and> cur_stack alias_vm = [List 0] @ [List 0, List 1]
   \<and> array_at (heap alias_vm) 1 = Inr [Number 2] \<and> array_at (heap alias_vm) 0 = Inr [Number 1]
   \<and> (\<exists>vm'. execute no_host (ins ADD (Some 1)) alias_vm = Inr vm'
        \<and> cur_stack vm' = [List 0, List 0]
        \<and> array_at (heap vm') 0 = Inr [Number 1, Number 2])"
  using add_lists [of alias_vm "[List 0]" 0 1 "[Number 2]" "[Number 1]" no_host "Some 1" None]
  by (simp add: alias_vm_def cur_stack_def array_at_def ins_def)

subsection \<open>C10\<close>

text \<open>
  Claim C10: for every pair of values \<open>a\<close> and \<open>b\<close> on the stack, EQ and NEQ both
  replace them by one Boolean, and the Boolean that NEQ pushes is the negation of the
  one that EQ pushes on the same operands.
\<close>

theorem neq_complements_eq:
  assumes "frames vm \<noteq> []" and "cur_stack vm = st @ [b, a]"
    and "a \<noteq> Undefined" and "b \<noteq> Undefined"
  shows "\<exists>r. execute env \<lparr>itype = EQ, ivalue = v, lineNumber = l\<rparr> vm
              = Inr (set_stack (st @ [Boolean r]) vm)
           \<and> execute env \<lparr>itype = NEQ, ivalue = v', lineNumber = l'\<rparr> vm
              = Inr (set_stack (st @ [Boolean (\<not> r)]) vm)
           \<and> map_sum id cur_stack (execute env \<lparr>itype = EQ, ivalue = v, lineNumber = l\<rparr> vm)
              = Inr (st @ [Boolean r])
           \<and> map_sum id cur_stack (execute env \<lparr>itype = NEQ, ivalue = v', lineNumber = l'\<rparr> vm)
              = Inr (st @ [Boolean (\<not> r)])"
proof -
  let ?r = "vtype a = vtype b \<and> payload_of b = payload_of a"
  have "execute env \<lparr>itype = EQ, ivalue = v, lineNumber = l\<rparr> vm
          = Inr (set_stack (st @ [Boolean ?r]) vm)"
    using execute_EQ [OF assms] by simp
  moreover have "execute env \<lparr>itype = NEQ, ivalue = v', lineNumber = l'\<rparr> vm
          = Inr (set_stack (st @ [Boolean (\<not> ?r)]) vm)"
    using execute_NEQ [OF assms] by simp
  ultimately show ?thesis
    by (intro exI [of _ ?r]) simp
qed

text \<open>
  Claim C10, witness: two lists at different addresses; EQ leaves false and NEQ leaves
  true on the stack.
\<close>

theorem neq_complements_eq_witness:
  "frames two_lists_vm \<noteq> [] \<and> cur_stack two_lists_vm = [] @ [List 0, List 1]
   \<and> List 1 \<noteq> Undefined \<and> List 0 \<noteq> Undefined
   \<and> (\<exists>r. execute no_host (ins EQ None) two_lists_vm = Inr (set_stack ([] @ [Boolean r]) two_lists_vm)
         \<and> execute no_host (ins NEQ None) two_lists_vm = Inr (set_stack ([] @ [Boolean (\<not> r)]) two_lists_vm)
         \<and> map_sum id cur_stack (execute no_host (ins EQ None) two_lists_vm) = Inr ([] @ [Boolean r])
         \<and> map_sum id cur_stack (execute no_host (ins NEQ None) two_lists_vm) = Inr ([] @ [Boolean (\<not> r)]))
   \<and> map_sum id cur_stack (execute no_host (ins EQ None) two_lists_vm) = Inr [Boolean False]
   \<and> map_sum id cur_stack (execute no_host (ins NEQ None) two_lists_vm) = Inr [Boolean True]"
proof -
  have e: "map_sum id cur_stack (execute no_host (ins EQ None) two_lists_vm) = Inr [Boolean False]"
    by code_simp
  have n: "map_sum id cur_stack (execute no_host (ins NEQ None) two_lists_vm) = Inr [Boolean True]"
    by code_simp
  from neq_complements_eq [of two_lists_vm "[]" "List 0" "List 1" no_host None None None None] e n
  show ?thesis
    by (simp add: two_lists_vm_def cur_stack_def ins_def)
qed

end
